theory Spec2Isabelle
  imports Complex_Main "HOL-Library.Product_Lexorder"
begin

section \<open>Conventions of the embedding\<close>

text \<open>
  The development embeds the Python sources of zodipy (\<^verbatim>\<open>_source_functions.py\<close>,
  \<^verbatim>\<open>_decorators.py\<close> and \<^verbatim>\<open>zodipy.py\<close>) in HOL.

  \<^item> A float64 is a \<^typ>\<open>real\<close>: arithmetic is exact, and \<open>inf\<close> and \<open>nan\<close> have no
    counterpart. Where NumPy divides by zero (it warns and yields \<open>inf\<close> or \<open>nan\<close>) the
    model holds HOL's \<open>x / 0 = 0\<close>; every theorem about such a quotient carries the
    hypothesis that keeps the divisor away from zero.
  \<^item> A Python \<open>int\<close> is an \<^typ>\<open>int\<close>.
  \<^item> Every \<^verbatim>\<open>raise\<close> of the sources, and every exception NumPy or Python raises on the
    paths modelled, is a constructor of \<open>error\<close>; a function that can raise returns
    \<open>error + 'a\<close>.
  \<^item> A one-dimensional float64 \<^verbatim>\<open>ndarray\<close> that the caller hands to a function is an
    object in a store, named by its address, so that an update in place is visible
    to the caller.
\<close>

datatype error =
    UnsupportedObserver string
  | PixelsWithoutNside
  | BinnedWithoutNside
  | MissingThetaOrPhi
  | PixelsAndAngles
  | LonlatWithoutAngles
  | OutOfSpectralRange string real real string
  | InvalidPixelNumber
  | ZeroDivisionError
  | IndexError
  | KeyError
  | ShapeError
  | AxisError
  | EmptyReduction
  | TypeError

text \<open>Sequencing of computations that can raise.\<close>

fun bind_err :: "error + 'a \<Rightarrow> ('a \<Rightarrow> error + 'b) \<Rightarrow> error + 'b" where
  "bind_err (Inl e) f = Inl e"
| "bind_err (Inr x) f = f x"

section \<open>Source functions (\<^verbatim>\<open>_source_functions.py\<close>)\<close>

subsection \<open>Python values, the store of arrays, NumPy's elementwise operations\<close>

type_synonym addr = nat

text \<open>The store: the contents of every \<^verbatim>\<open>ndarray\<close> object, by address.\<close>

type_synonym heap = "addr \<Rightarrow> real list"

text \<open>An argument is a Python \<^verbatim>\<open>float\<close> or a reference to an \<^verbatim>\<open>ndarray\<close>.\<close>

datatype pyval = Float real | NdArray addr

text \<open>A computed value: a scalar, or the contents of a freshly allocated array.\<close>

datatype num = Scalar real | Array "real list"

fun read :: "heap \<Rightarrow> pyval \<Rightarrow> num" where
  "read s (Float x) = Scalar x"
| "read s (NdArray a) = Array (s a)"

text \<open>
  \<^verbatim>\<open>x *= k\<close> on a parameter \<open>x\<close>: a \<^verbatim>\<open>float\<close> is immutable, so the local name is bound
  to the product; an \<^verbatim>\<open>ndarray\<close> is multiplied in place, and the local name keeps
  naming the caller's object.
\<close>

fun imul :: "heap \<Rightarrow> pyval \<Rightarrow> real \<Rightarrow> heap \<times> pyval" where
  "imul s (Float x) k = (s, Float (x * k))"
| "imul s (NdArray a) k = (s(a := map (\<lambda>x. x * k) (s a)), NdArray a)"

fun ufunc1 :: "(real \<Rightarrow> real) \<Rightarrow> num \<Rightarrow> num" where
  "ufunc1 f (Scalar x) = Scalar (f x)"
| "ufunc1 f (Array xs) = Array (map f xs)"

text \<open>A binary operation with NumPy's broadcasting of one-dimensional operands.\<close>

fun ufunc2 :: "(real \<Rightarrow> real \<Rightarrow> real) \<Rightarrow> num \<Rightarrow> num \<Rightarrow> error + num" where
  "ufunc2 f (Scalar x) (Scalar y) = Inr (Scalar (f x y))"
| "ufunc2 f (Scalar x) (Array ys) = Inr (Array (map (f x) ys))"
| "ufunc2 f (Array xs) (Scalar y) = Inr (Array (map (\<lambda>x. f x y) xs))"
| "ufunc2 f (Array xs) (Array ys) =
     (if length xs = length ys then Inr (Array (map2 f xs ys))
      else if length xs = 1 then Inr (Array (map (f (hd xs)) ys))
      else if length ys = 1 then Inr (Array (map (\<lambda>x. f x (hd ys)) xs))
      else Inl ShapeError)"

text \<open>
  \<^verbatim>\<open>a / b\<close> where both operands may be Python floats: Python raises
  \<^verbatim>\<open>ZeroDivisionError\<close> on a zero divisor; with an array operand the division is
  NumPy's.
\<close>

fun py_truediv :: "num \<Rightarrow> num \<Rightarrow> error + num" where
  "py_truediv (Scalar x) (Scalar y) =
     (if y = 0 then Inl ZeroDivisionError else Inr (Scalar (x / y)))"
| "py_truediv a b = ufunc2 (\<lambda>x y. x / y) a b"

definition expm1 :: "real \<Rightarrow> real" where
  "expm1 x = exp x - 1"

fun np_sum :: "num \<Rightarrow> real" where
  "np_sum (Scalar x) = x"
| "np_sum (Array xs) = sum_list xs"

subsection \<open>The physical constants\<close>

text \<open>
  \<^verbatim>\<open>h\<close>, \<^verbatim>\<open>c\<close> and \<^verbatim>\<open>k_B\<close> are read from \<^verbatim>\<open>astropy.constants\<close> when the module is
  loaded; the functions below take them as a parameter.
\<close>

record constants =
  const_h :: real
  const_c :: real
  const_k_B :: real

text \<open>The CODATA 2018 values, in SI units.\<close>

definition codata2018 :: constants where
  "codata2018 =
     \<lparr>const_h = 662607015 / 10 ^ 42, const_c = 299792458, const_k_B = 1380649 / 10 ^ 29\<rparr>"

subsection \<open>\<^verbatim>\<open>blackbody_emission\<close>\<close>

text \<open>
  \<^verbatim>\<open>
  freq *= 1e9
  term1 = (2 * h * freq ** 3) / c ** 2
  term2 = np.expm1((h * freq) / (k_B * T))
  return term1 / term2
  \<close>
  The store is returned as the first statement leaves it, whatever follows.
\<close>

definition blackbody_emission ::
  "constants \<Rightarrow> heap \<Rightarrow> pyval \<Rightarrow> pyval \<Rightarrow> heap \<times> (error + num)" where
  "blackbody_emission k s T freq =
     (let (s', freq') = imul s freq (10 ^ 9) in
      (s',
       bind_err
         (py_truediv (ufunc1 (\<lambda>f. 2 * const_h k * f ^ 3) (read s' freq'))
            (Scalar ((const_c k) ^ 2)))
         (\<lambda>term1.
            bind_err
              (py_truediv (ufunc1 (\<lambda>f. const_h k * f) (read s' freq'))
                 (ufunc1 (\<lambda>t. const_k_B k * t) (read s' T)))
              (\<lambda>x. ufunc2 (\<lambda>a b. a / b) term1 (ufunc1 expm1 x)))))"

subsection \<open>\<^verbatim>\<open>blackbody_emission_wavelen\<close>\<close>

text \<open>
  \<^verbatim>\<open>
  wavelen *= 1e-6
  term1 = (2 * h * c ** 2) / wavelen ** 5
  term2 = np.expm1((h * c) / (wavelen * k_B * T))
  return term1 / term2
  \<close>
\<close>

definition blackbody_emission_wavelen ::
  "constants \<Rightarrow> heap \<Rightarrow> pyval \<Rightarrow> pyval \<Rightarrow> heap \<times> (error + num)" where
  "blackbody_emission_wavelen k s T wavelen =
     (let (s', wavelen') = imul s wavelen (1 / 10 ^ 6) in
      (s',
       bind_err
         (py_truediv (Scalar (2 * const_h k * (const_c k) ^ 2))
            (ufunc1 (\<lambda>w. w ^ 5) (read s' wavelen')))
         (\<lambda>term1.
            bind_err
              (ufunc2 (\<lambda>a b. a * b) (ufunc1 (\<lambda>w. w * const_k_B k) (read s' wavelen'))
                 (read s' T))
              (\<lambda>d.
                 bind_err (py_truediv (Scalar (const_h k * const_c k)) d)
                   (\<lambda>x. ufunc2 (\<lambda>a b. a / b) term1 (ufunc1 expm1 x))))))"

subsection \<open>\<^verbatim>\<open>interplanetary_temperature\<close>\<close>

text \<open>
  \<^verbatim>\<open>return T_0 * R ** -delta\<close>, for radial distances \<open>R > 0\<close> (where NumPy's power is
  \<open>powr\<close>).
\<close>

definition interplanetary_temperature ::
  "heap \<Rightarrow> pyval \<Rightarrow> real \<Rightarrow> real \<Rightarrow> heap \<times> num" where
  "interplanetary_temperature s R T_0 delta =
     (s, ufunc1 (\<lambda>r. T_0 * r powr (- delta)) (read s R))"

subsection \<open>\<^verbatim>\<open>phase_function\<close>\<close>

text \<open>
  \<^verbatim>\<open>
  phase = C[0] + C[1] * Theta + np.exp(C[2] * Theta)
  N = 1 / (phase.sum())
  return N * phase
  \<close>
  \<open>C\<close> is a sequence of floats; indexing it beyond its length raises \<^verbatim>\<open>IndexError\<close>.
\<close>

definition phase_function :: "heap \<Rightarrow> pyval \<Rightarrow> real list \<Rightarrow> heap \<times> (error + num)" where
  "phase_function s Theta C =
     (if length C < 3 then (s, Inl IndexError)
      else
        (let phase = ufunc1 (\<lambda>t. C ! 0 + C ! 1 * t + exp (C ! 2 * t)) (read s Theta);
             N = 1 / np_sum phase
         in (s, Inr (ufunc1 (\<lambda>p. N * p) phase))))"


section \<open>Input validation (\<^verbatim>\<open>_decorators.py\<close>)\<close>

text \<open>
  An astropy \<^verbatim>\<open>Quantity\<close>: a number with the name of its unit. The conversion
  \<^verbatim>\<open>Quantity.to(unit, equivalencies=u.spectral())\<close> is astropy's and is taken as a
  parameter wherever it is called.
\<close>

record quantity =
  magnitude :: real
  q_unit :: string

text \<open>The attributes of \<^verbatim>\<open>self\<close> that \<^verbatim>\<open>validate_frequency\<close> reads:
  \<^verbatim>\<open>zodipy.extrapolate\<close>, \<^verbatim>\<open>zodipy.model.name\<close> and \<^verbatim>\<open>zodipy.model.spectrum\<close> (the
  tabulated values and their unit). The class \<^verbatim>\<open>Zodipy\<close> of \<^verbatim>\<open>zodipy.py\<close> has none of
  them (it keeps its model in \<^verbatim>\<open>_model\<close>, with one spectrum for each table), so
  \<^verbatim>\<open>self\<close> is here any object that has them.\<close>

record zodipy_attrs =
  extrapolate :: bool
  model_name :: string
  spectrum :: "real list"
  spectrum_unit :: string

text \<open>\<^verbatim>\<open>ndarray.min()\<close> and \<^verbatim>\<open>ndarray.max()\<close>: NumPy raises \<^verbatim>\<open>ValueError\<close> on an
  empty array.\<close>

fun np_min :: "'a::linorder list \<Rightarrow> error + 'a" where
  "np_min [] = Inl EmptyReduction"
| "np_min (x # xs) = Inr (fold min xs x)"

fun np_max :: "'a::linorder list \<Rightarrow> error + 'a" where
  "np_max [] = Inl EmptyReduction"
| "np_max (x # xs) = Inr (fold max xs x)"

text \<open>
  \<^verbatim>\<open>
  if not zodipy.extrapolate:
      freq = freq.to(zodipy.model.spectrum.unit, equivalencies=u.spectral())
      spectrum_min = zodipy.model.spectrum.min()
      spectrum_max = zodipy.model.spectrum.max()
      if not (spectrum_min <= freq <= spectrum_max):
          raise ValueError(...)
  freq = freq.to(u.GHz, equivalencies=u.spectral())
  return function(self=self, freq=freq, *args, **kwargs)
  \<close>
  The wrapper takes \<^verbatim>\<open>self\<close>, the frequency, and any further positional and keyword
  arguments. It calls the wrapped function with \<^verbatim>\<open>self\<close> and the frequency as
  keywords and the further positional arguments in front of them: the first of these
  is bound to the first parameter of the wrapped function, which is \<^verbatim>\<open>self\<close>, and
  the call raises \<^verbatim>\<open>TypeError\<close> (two values for \<^verbatim>\<open>self\<close>). So the wrapped function
  is reached only when there is no further positional argument; the keyword arguments
  are passed on unchanged and are part of \<open>function\<close> here. The range is checked
  before the call. The error of the range carries what the message prints: the
  model's name, the two bounds and the unit.
\<close>

definition validate_frequency ::
  "(quantity \<Rightarrow> string \<Rightarrow> quantity) \<Rightarrow> (zodipy_attrs \<Rightarrow> quantity \<Rightarrow> error + 'r) \<Rightarrow>
     zodipy_attrs \<Rightarrow> quantity \<Rightarrow> 'p list \<Rightarrow> error + 'r" where
  "validate_frequency to_unit function self freq args =
     (let call = (\<lambda>freq. if args \<noteq> [] then Inl TypeError else function self freq) in
      if \<not> extrapolate self then
        (let freq' = to_unit freq (spectrum_unit self) in
         bind_err (np_min (spectrum self)) (\<lambda>spectrum_min.
         bind_err (np_max (spectrum self)) (\<lambda>spectrum_max.
           if \<not> (spectrum_min \<le> magnitude freq' \<and> magnitude freq' \<le> spectrum_max)
           then Inl (OutOfSpectralRange (model_name self) spectrum_min spectrum_max
                       (spectrum_unit self))
           else call (to_unit freq' ''GHz''))))
      else call (to_unit freq ''GHz''))"

text \<open>healpy's \<^verbatim>\<open>nside2npix\<close>: the number of pixels of a map of resolution \<open>nside\<close>,
  whose pixels have the indices \<open>0\<close> to \<open>12 * nside^2 - 1\<close>.\<close>

definition nside2npix :: "int \<Rightarrow> int" where
  "nside2npix nside = 12 * nside * nside"

text \<open>
  \<^verbatim>\<open>
  max_pixel_number = hp.nside2npix(nside)
  if np.max(pixels) > max_pixel_number:
      raise ValueError("invalid pixel number given nside")
  if np.ndim(pixels) == 0:
      pixels = np.expand_dims(pixels, axis=0)
  return function(pixels=pixels, nside=nside, *args, **kwargs)
  \<close>
  A single pixel is the sequence of that one pixel, which is what the last step
  makes of it.
\<close>

definition validate_pixels ::
  "(int list \<Rightarrow> int \<Rightarrow> error + 'r) \<Rightarrow> int list \<Rightarrow> int \<Rightarrow> error + 'r" where
  "validate_pixels function pixels nside =
     (let max_pixel_number = nside2npix nside in
      bind_err (np_max pixels) (\<lambda>m.
        if m > max_pixel_number then Inl InvalidPixelNumber
        else function pixels nside))"

section \<open>The interface (\<^verbatim>\<open>zodipy.py\<close>)\<close>

subsection \<open>NumPy on sequences\<close>

text \<open>\<^verbatim>\<open>np.unique\<close>: the sorted distinct elements, with the number of occurrences of
  each (\<^verbatim>\<open>return_counts\<close>) and, for every input position, the index of its element
  among the distinct ones (\<^verbatim>\<open>return_inverse\<close>).\<close>

definition np_unique :: "'a::linorder list \<Rightarrow> 'a list" where
  "np_unique xs = sort (remdups xs)"

definition unique_counts :: "'a::linorder list \<Rightarrow> int list" where
  "unique_counts xs = map (\<lambda>u. int (count_list xs u)) (np_unique xs)"

fun index_of :: "'a list \<Rightarrow> 'a \<Rightarrow> nat" where
  "index_of [] x = 0"
| "index_of (y # ys) x = (if x = y then 0 else Suc (index_of ys x))"

definition unique_inverse :: "'a::linorder list \<Rightarrow> nat list" where
  "unique_inverse xs = map (index_of (np_unique xs)) xs"

text \<open>An index into an axis of length \<open>n\<close>: a negative index counts from the end;
  outside \<open>[-n, n)\<close> NumPy raises \<^verbatim>\<open>IndexError\<close>.\<close>

definition np_index :: "nat \<Rightarrow> int \<Rightarrow> error + nat" where
  "np_index n i =
     (if 0 \<le> i \<and> i < int n then Inr (nat i)
      else if - int n \<le> i \<and> i < 0 then Inr (nat (i + int n))
      else Inl IndexError)"

fun np_indices :: "nat \<Rightarrow> int list \<Rightarrow> error + nat list" where
  "np_indices n [] = Inr []"
| "np_indices n (i # is) =
     bind_err (np_index n i) (\<lambda>j. bind_err (np_indices n is) (\<lambda>js. Inr (j # js)))"

text \<open>The values assigned to \<open>n\<close> positions: as many values, or one value for all of
  them; any other shape is a \<^verbatim>\<open>ValueError\<close>.\<close>

definition broadcast_to :: "nat \<Rightarrow> real list \<Rightarrow> error + real list" where
  "broadcast_to n vs =
     (if length vs = n then Inr vs
      else if length vs = 1 then Inr (replicate n (hd vs))
      else Inl ShapeError)"

text \<open>The assignments \<open>row[i] = v\<close> one after the other: where an index repeats, the
  last value stays.\<close>

definition put :: "nat list \<Rightarrow> real list \<Rightarrow> real list \<Rightarrow> real list" where
  "put js vs row = fold (\<lambda>(j, v) r. r[j := v]) (zip js vs) row"

text \<open>\<^verbatim>\<open>row[indices] = vals\<close>\<close>

definition fancy_assign :: "real list \<Rightarrow> int list \<Rightarrow> real list \<Rightarrow> error + real list" where
  "fancy_assign row indices vals =
     bind_err (np_indices (length row) indices) (\<lambda>js.
     bind_err (broadcast_to (length js) vals) (\<lambda>vs. Inr (put js vs row)))"

text \<open>\<^verbatim>\<open>emission[idx, indices] = vals\<close>\<close>

definition assign_at ::
  "real list list \<Rightarrow> nat \<Rightarrow> int list \<Rightarrow> real list \<Rightarrow> error + real list list" where
  "assign_at emission idx indices vals =
     (if idx < length emission
      then bind_err (fancy_assign (emission ! idx) indices vals)
             (\<lambda>row. Inr (emission[idx := row]))
      else Inl IndexError)"

text \<open>\<^verbatim>\<open>emission[:, indices] *= counts\<close> on a matrix with \<open>n\<close> columns: every row is
  read at the indices, multiplied by the counts, and written back at the indices.\<close>

definition imul_columns ::
  "real list list \<Rightarrow> nat \<Rightarrow> int list \<Rightarrow> int list \<Rightarrow> error + real list list" where
  "imul_columns emission n indices counts =
     bind_err (np_indices n indices) (\<lambda>js.
       Inr (map (\<lambda>row. put js (map2 (\<lambda>j c. row ! j * of_int c) js counts) row) emission))"

text \<open>\<^verbatim>\<open>vals[indices]\<close> for indices that are not negative.\<close>

fun take_indices :: "real list \<Rightarrow> nat list \<Rightarrow> error + real list" where
  "take_indices vals [] = Inr []"
| "take_indices vals (j # js) =
     (if j < length vals
      then bind_err (take_indices vals js) (\<lambda>r. Inr (vals ! j # r))
      else Inl IndexError)"

text \<open>\<^verbatim>\<open>emission[idx] = vals\<close>, for \<open>vals\<close> of the length of a row.\<close>

definition assign_row :: "real list list \<Rightarrow> nat \<Rightarrow> real list \<Rightarrow> error + real list list" where
  "assign_row emission idx vals =
     (if idx < length emission then Inr (emission[idx := vals]) else Inl IndexError)"

text \<open>\<^verbatim>\<open>str.lower\<close> on ASCII letters.\<close>

definition lower :: "string \<Rightarrow> string" where
  "lower s =
     map (\<lambda>ch. let n = (of_char ch :: nat) in
                if 65 \<le> n \<and> n \<le> 90 then char_of (n + 32) else ch) s"

subsection \<open>Vectors\<close>

type_synonym vec3 = "real \<times> real \<times> real"

text \<open>\<^verbatim>\<open>np.linalg.norm\<close>, and a vector divided and multiplied by a scalar.\<close>

fun norm3 :: "vec3 \<Rightarrow> real" where
  "norm3 (x, y, z) = sqrt (x ^ 2 + y ^ 2 + z ^ 2)"

fun div3 :: "vec3 \<Rightarrow> real \<Rightarrow> vec3" where
  "div3 (x, y, z) k = (x / k, y / k, z / k)"

fun mul3 :: "vec3 \<Rightarrow> real \<Rightarrow> vec3" where
  "mul3 (x, y, z) k = (x * k, y * k, z * k)"

subsection \<open>The model, the collaborators and the arguments\<close>

text \<open>The labels of the components (\<^verbatim>\<open>zodipy._labels.CompLabel\<close>); this file names
  \<open>CLOUD\<close> only.\<close>

datatype CompLabel = CLOUD | BAND1 | BAND2 | BAND3 | RING | FEATURE

text \<open>A component: its offset from the Sun, read for the cloud; its other parameters
  are read by the integrator only.\<close>

record component =
  X_0 :: vec3
  shape_params :: "real list"

text \<open>The model \<^verbatim>\<open>self._model\<close>: the components in the order of the dictionary, the
  model's own count of them (\<^verbatim>\<open>model.ncomps\<close>, the number of rows of the result), and
  the spectral tables, whose representation \<open>'tab\<close> is that of the interpolation
  routines.\<close>

record 'tab ipd_model =
  comps :: "(CompLabel \<times> component) list"
  ncomps :: nat
  T_0 :: real
  delta :: real
  emissivities :: 'tab
  emissivity_spectrum :: 'tab
  albedos :: 'tab
  albedo_spectrum :: 'tab
  phase_coeffs :: 'tab
  phase_coeffs_spectrum :: 'tab

record 'tab zodipy =
  model :: "'tab ipd_model"
  line_of_sights :: "CompLabel \<rightharpoonup> real list"

text \<open>The interpolated emissivity and albedo of a component (the dictionary with the
  keys \<^verbatim>\<open>"emissivity"\<close> and \<^verbatim>\<open>"albedo"\<close>).\<close>

record spectral_params =
  emissivity :: real
  albedo :: real

text \<open>
  The collaborators of \<^verbatim>\<open>get_emission\<close>, none of them among the sources embedded
  here:
  \<^item> \<open>bodies\<close>: \<^verbatim>\<open>solar_system_ephemeris.bodies\<close>;
  \<^item> \<open>get_body\<close>: \<^verbatim>\<open>get_body(name, time)\<close> transformed to
    \<^verbatim>\<open>HeliocentricMeanEcliptic\<close> and represented as cartesian \<open>xyz\<close> in AU;
  \<^item> \<open>to_unit\<close>: \<^verbatim>\<open>Quantity.to\<close> with the spectral equivalencies;
  \<^item> \<open>pix2vec\<close>, \<open>ang2vec\<close>, \<open>ang2pix\<close>: healpy's, for one pixel or one pair of angles;
  \<^item> \<open>rotator\<close>: \<^verbatim>\<open>hp.rotator.Rotator(coord=[coord_out, "E"])\<close> on one vector;
  \<^item> \<open>interp_phase_coeffs\<close>, \<open>interp_comp_spectral_params\<close>: \<^verbatim>\<open>zodipy._interp\<close>;
  \<^item> \<open>trapezoidal\<close>: \<^verbatim>\<open>zodipy._integral.trapezoidal\<close>, with its arguments in the
    order of the keywords of the call.
  Each of them is a function that returns: what a collaborator raises is not part of
  the model. The unit check of \<^verbatim>\<open>@u.quantity_input\<close> is the typing of the arguments.
\<close>

record 'tab env =
  bodies :: "string list"
  get_body :: "string \<Rightarrow> real \<Rightarrow> vec3"
  to_unit :: "quantity \<Rightarrow> string \<Rightarrow> quantity"
  pix2vec :: "int \<Rightarrow> int \<Rightarrow> vec3"
  ang2vec :: "real \<Rightarrow> real \<Rightarrow> bool \<Rightarrow> vec3"
  ang2pix :: "int \<Rightarrow> real \<Rightarrow> real \<Rightarrow> bool \<Rightarrow> int"
  rotator :: "string \<Rightarrow> vec3 \<Rightarrow> vec3"
  interp_phase_coeffs :: "real \<Rightarrow> 'tab \<Rightarrow> 'tab \<Rightarrow> real list"
  interp_comp_spectral_params ::
    "real \<Rightarrow> 'tab \<Rightarrow> 'tab \<Rightarrow> 'tab \<Rightarrow> 'tab \<Rightarrow> (CompLabel \<rightharpoonup> spectral_params)"
  trapezoidal ::
    "component \<Rightarrow> real \<Rightarrow> real list \<Rightarrow> vec3 \<Rightarrow> vec3 \<Rightarrow> vec3 list \<Rightarrow> vec3 \<Rightarrow> real \<Rightarrow> real \<Rightarrow>
       real \<Rightarrow> real \<Rightarrow> real list \<Rightarrow> real list list option \<Rightarrow> real list"

text \<open>The calls to collaborators that the specification names: position
  resolution, spectral interpolation and integration (of one component, along the
  unit vectors given).\<close>

datatype event =
    GetBody string
  | InterpPhaseCoeffs
  | InterpCompSpectralParams
  | Trapezoidal CompLabel "vec3 list"

definition ADDITIONAL_SUPPORTED_OBSERVERS :: "string list" where
  "ADDITIONAL_SUPPORTED_OBSERVERS = [''semb-l2'']"

definition DISTANCE_FROM_EARTH_TO_L2 :: real where
  "DISTANCE_FROM_EARTH_TO_L2 = 9896235034000056 / 10 ^ 18"

text \<open>The property \<^verbatim>\<open>Zodipy.observers\<close>.\<close>

definition observers :: "'tab env \<Rightarrow> string list" where
  "observers env = bodies env @ ADDITIONAL_SUPPORTED_OBSERVERS"

text \<open>
  \<^verbatim>\<open>_rotated_pix2vec\<close> and \<^verbatim>\<open>_rotated_ang2vec\<close>. The caller passes the unique
  \<open>(theta, phi)\<close> pairs positionally; \<^verbatim>\<open>_rotated_ang2vec\<close> names them \<open>phi, theta\<close> and
  passes them on to \<^verbatim>\<open>hp.ang2vec\<close> in the same positions.
\<close>

definition rotated_pix2vec :: "'tab env \<Rightarrow> int list \<Rightarrow> int \<Rightarrow> string \<Rightarrow> vec3 list" where
  "rotated_pix2vec env pixels nside coord_out =
     (let unit_vectors = map (pix2vec env nside) pixels in
      if coord_out \<noteq> ''E'' then map (rotator env coord_out) unit_vectors else unit_vectors)"

definition rotated_ang2vec ::
  "'tab env \<Rightarrow> (real \<times> real) list \<Rightarrow> bool \<Rightarrow> string \<Rightarrow> vec3 list" where
  "rotated_ang2vec env angles lonlat coord_out =
     (let unit_vectors = map (\<lambda>(phi, theta). ang2vec env phi theta lonlat) angles in
      if coord_out \<noteq> ''E'' then map (rotator env coord_out) unit_vectors else unit_vectors)"

text \<open>Angles: the values of a \<^verbatim>\<open>Quantity\<close> in radians or in degrees.\<close>

datatype angle_unit = Rad | Deg

record angle_array =
  angle_values :: "real list"
  angle_unit :: angle_unit

text \<open>\<^verbatim>\<open>.to(u.deg)\<close>\<close>

definition to_deg :: "angle_array \<Rightarrow> real list" where
  "to_deg q =
     (case angle_unit q of
        Deg \<Rightarrow> angle_values q
      | Rad \<Rightarrow> map (\<lambda>x. x * 180 / pi) (angle_values q))"

text \<open>The conversion of \<^verbatim>\<open>W / Hz / m^2 / sr\<close> to \<^verbatim>\<open>MJy / sr\<close>: one jansky is
  \<open>1e-26\<close> \<^verbatim>\<open>W / Hz / m^2\<close>.\<close>

definition MJy_per_sr :: real where
  "MJy_per_sr = 10 ^ 20"

text \<open>The arguments of \<^verbatim>\<open>get_emission\<close>. A single pixel or angle is the sequence of
  that one element (\<^verbatim>\<open>np.expand_dims\<close>).\<close>

record args =
  freq :: quantity
  obs_time :: real
  obs :: string
  obs_pos :: "vec3 option"
  pixels :: "int list option"
  theta :: "angle_array option"
  phi :: "angle_array option"
  nside :: "int option"
  lonlat :: bool
  binned :: bool
  return_comps :: bool
  coord_out :: string
  colorcorr_table :: "real list list option"

text \<open>The result: the emission of every component (\<^verbatim>\<open>return_comps\<close>), or their sum.\<close>

datatype emission = PerComp "real list list" | Summed "real list"

subsection \<open>\<^verbatim>\<open>Zodipy.get_emission\<close>\<close>

text \<open>
  Lines 179 to 184: the values of the angles, when both are given; in degrees if
  \<^verbatim>\<open>lonlat\<close> is set.
\<close>

definition converted_angles :: "args \<Rightarrow> (real list \<times> real list) option" where
  "converted_angles a =
     (case (theta a, phi a) of
        (Some t, Some p) \<Rightarrow>
          Some (if lonlat a then (to_deg t, to_deg p) else (angle_values t, angle_values p))
      | _ \<Rightarrow> None)"

text \<open>
  Lines 153 to 196: the checks of the arguments, in the order of the source; the
  conversion of the angles stands between the fourth and the fifth check. The
  converted angles are the result.
\<close>

definition check_arguments ::
  "'tab env \<Rightarrow> args \<Rightarrow> error + (real list \<times> real list) option" where
  "check_arguments env a =
     (if lower (obs a) \<notin> set (observers env) then Inl (UnsupportedObserver (obs a))
      else if pixels a \<noteq> None \<and> nside a = None then Inl PixelsWithoutNside
      else if binned a \<and> nside a = None then Inl BinnedWithoutNside
      else if (theta a \<noteq> None \<and> phi a = None) \<or> (phi a \<noteq> None \<and> theta a = None)
        then Inl MissingThetaOrPhi
      else
        (let angles = converted_angles a
         in if pixels a \<noteq> None \<and> (phi a \<noteq> None \<or> theta a \<noteq> None) then Inl PixelsAndAngles
            else if pixels a \<noteq> None \<and> lonlat a then Inl LonlatWithoutAngles
            else Inr angles))"

text \<open>
  Lines 203 to 213: the position of the observer, given the position of the Earth.
  \<^verbatim>\<open>
  if obs_pos is None:
      if obs.lower() == "semb-l2":
          earth_length = np.linalg.norm(earth_pos)
          earth_unit_vec = earth_pos / earth_length
          semb_l2_length = earth_length + DISTANCE_FROM_EARTH_TO_L2
          obs_pos = earth_unit_vec * semb_l2_length
      else:
          obs_pos = get_body(obs, time=obs_time) ...
  \<close>
\<close>

definition observer_position :: "'tab env \<Rightarrow> args \<Rightarrow> vec3 \<Rightarrow> event list \<times> vec3" where
  "observer_position env a earth_pos =
     (case obs_pos a of
        Some p \<Rightarrow> ([], p)
      | None \<Rightarrow>
          if lower (obs a) = ''semb-l2'' then
            (let earth_length = norm3 earth_pos;
                 earth_unit_vec = div3 earth_pos earth_length;
                 semb_l2_length = earth_length + DISTANCE_FROM_EARTH_TO_L2
             in ([], mul3 earth_unit_vec semb_l2_length))
          else ([GetBody (obs a)], get_body env (obs a) (obs_time a)))"

text \<open>
  The call of \<^verbatim>\<open>trapezoidal\<close> for one component, which is the same in both branches
  (lines 257 to 271 and 297 to 311). The two dictionaries are indexed by the label
  while the arguments are evaluated: a missing key raises \<^verbatim>\<open>KeyError\<close> before the
  call.
\<close>

definition trapezoidal_call ::
  "'tab env \<Rightarrow> 'tab zodipy \<Rightarrow> real list list option \<Rightarrow> real \<Rightarrow> vec3 \<Rightarrow> vec3 \<Rightarrow> vec3 \<Rightarrow>
     (CompLabel \<rightharpoonup> spectral_params) \<Rightarrow> real list \<Rightarrow> vec3 list \<Rightarrow> CompLabel \<Rightarrow> component \<Rightarrow>
     error + real list" where
  "trapezoidal_call env self cc freq_GHz observer_pos earth_pos cloud_offset
       spectral_comp_parameters pc unit_vectors label component =
     (case line_of_sights self label of
        None \<Rightarrow> Inl KeyError
      | Some line_of_sight \<Rightarrow>
          (case spectral_comp_parameters label of
             None \<Rightarrow> Inl KeyError
           | Some sp \<Rightarrow>
               Inr (trapezoidal env component freq_GHz line_of_sight observer_pos earth_pos
                      unit_vectors cloud_offset (T_0 (model self)) (delta (model self))
                      (emissivity sp) (albedo sp) pc cc)))"

text \<open>
  Lines 236 to 253: the pixels written, the count of each unique direction and the
  unit vectors of the unique directions, for a binned call. Without pixels and
  without angles \<^verbatim>\<open>np.unique\<close> is called on a one-dimensional array with
  \<^verbatim>\<open>axis=1\<close> and raises; angles of different lengths do not form an array.
\<close>

definition binned_directions ::
  "'tab env \<Rightarrow> args \<Rightarrow> int \<Rightarrow> (real list \<times> real list) option \<Rightarrow>
     error + (int list \<times> int list \<times> vec3 list)" where
  "binned_directions env a n angles =
     (case pixels a of
        Some ps \<Rightarrow>
          (let unique_pixels = np_unique ps; counts = unique_counts ps
           in Inr (unique_pixels, counts, rotated_pix2vec env unique_pixels n (coord_out a)))
      | None \<Rightarrow>
          (case angles of
             None \<Rightarrow> Inl AxisError
           | Some (t, p) \<Rightarrow>
               if length t \<noteq> length p then Inl ShapeError
               else
                 (let unique_angles = np_unique (zip t p);
                      counts = unique_counts (zip t p);
                      unique_pixels = map (\<lambda>(t, p). ang2pix env n t p (lonlat a)) unique_angles
                  in Inr (unique_pixels, counts,
                          rotated_ang2vec env unique_angles (lonlat a) (coord_out a)))))"

text \<open>
  Lines 276 to 294: the index of every input direction among the unique ones, the
  unit vectors of the unique directions and the number of input directions, for a
  call that is not binned. After the checks of the arguments pixels come with
  \<open>nside\<close>; the branch for pixels without it is never taken.
\<close>

definition timestream_directions ::
  "'tab env \<Rightarrow> args \<Rightarrow> (real list \<times> real list) option \<Rightarrow> error + (nat list \<times> vec3 list \<times> nat)" where
  "timestream_directions env a angles =
     (case pixels a of
        Some ps \<Rightarrow>
          (case nside a of
             None \<Rightarrow> Inl PixelsWithoutNside
           | Some n \<Rightarrow>
               Inr (unique_inverse ps, rotated_pix2vec env (np_unique ps) n (coord_out a),
                    length ps))
      | None \<Rightarrow>
          (case angles of
             None \<Rightarrow> Inl AxisError
           | Some (t, p) \<Rightarrow>
               if length t \<noteq> length p then Inl ShapeError
               else
                 Inr (unique_inverse (zip t p),
                      rotated_ang2vec env (np_unique (zip t p)) (lonlat a) (coord_out a),
                      length t)))"

text \<open>
  The loop of the binned branch (lines 256 to 271), over the components with their
  indices: \<^verbatim>\<open>emission[idx, unique_pixels] = trapezoidal(...)\<close>.
\<close>

fun binned_loop ::
  "(vec3 list \<Rightarrow> CompLabel \<Rightarrow> component \<Rightarrow> error + real list) \<Rightarrow> vec3 list \<Rightarrow> int list \<Rightarrow>
     (nat \<times> CompLabel \<times> component) list \<Rightarrow> real list list \<Rightarrow>
     event list \<times> (error + real list list)" where
  "binned_loop f unit_vectors unique_pixels [] em = ([], Inr em)"
| "binned_loop f unit_vectors unique_pixels ((idx, label, component) # rest) em =
     (case f unit_vectors label component of
        Inl e \<Rightarrow> ([], Inl e)
      | Inr integrated \<Rightarrow>
          (case assign_at em idx unique_pixels integrated of
             Inl e \<Rightarrow> ([Trapezoidal label unit_vectors], Inl e)
           | Inr em' \<Rightarrow>
               (let r = binned_loop f unit_vectors unique_pixels rest em'
                in (Trapezoidal label unit_vectors # fst r, snd r))))"

text \<open>
  The loop of the other branch (lines 296 to 313):
  \<^verbatim>\<open>emission[idx] = integrated_comp_emission[indicies]\<close>.
\<close>

fun timestream_loop ::
  "(vec3 list \<Rightarrow> CompLabel \<Rightarrow> component \<Rightarrow> error + real list) \<Rightarrow> vec3 list \<Rightarrow> nat list \<Rightarrow>
     (nat \<times> CompLabel \<times> component) list \<Rightarrow> real list list \<Rightarrow>
     event list \<times> (error + real list list)" where
  "timestream_loop f unit_vectors indicies [] em = ([], Inr em)"
| "timestream_loop f unit_vectors indicies ((idx, label, component) # rest) em =
     (case f unit_vectors label component of
        Inl e \<Rightarrow> ([], Inl e)
      | Inr integrated_comp_emission \<Rightarrow>
          (case bind_err (take_indices integrated_comp_emission indicies) (assign_row em idx) of
             Inl e \<Rightarrow> ([Trapezoidal label unit_vectors], Inl e)
           | Inr em' \<Rightarrow>
               (let r = timestream_loop f unit_vectors indicies rest em'
                in (Trapezoidal label unit_vectors # fst r, snd r))))"

text \<open>Lines 316 and 318: the conversion to \<^verbatim>\<open>MJy / sr\<close>, and the sum over the
  components (\<^verbatim>\<open>emission.sum(axis=0)\<close>) of a matrix with \<open>n\<close> columns.\<close>

definition finish :: "bool \<Rightarrow> nat \<Rightarrow> real list list \<Rightarrow> emission" where
  "finish comps_wanted n em =
     (let converted = map (map (\<lambda>x. x * MJy_per_sr)) em
      in if comps_wanted then PerComp converted
         else Summed (map (\<lambda>j. sum_list (map (\<lambda>row. row ! j) converted)) [0..<n]))"

text \<open>
  Lines 198 to 233: the positions of the Earth and of the observer, the frequency in
  GHz, the interpolated spectral parameters and the offset of the cloud. The result
  is the log of the calls made and the call of the integrator that both branches
  make for a component along given unit vectors; a model without the component
  \<open>CLOUD\<close> raises \<^verbatim>\<open>KeyError\<close>.
\<close>

definition prepare_integration ::
  "'tab env \<Rightarrow> 'tab zodipy \<Rightarrow> args \<Rightarrow>
     event list \<times> (error + (vec3 list \<Rightarrow> CompLabel \<Rightarrow> component \<Rightarrow> error + real list))" where
  "prepare_integration env self a =
     (let m = model self;
          earth_pos = get_body env ''Earth'' (obs_time a);
          opos = observer_position env a earth_pos;
          freq_GHz = magnitude (to_unit env (freq a) ''GHz'');
          pc = interp_phase_coeffs env freq_GHz (phase_coeffs m) (phase_coeffs_spectrum m);
          spectral_comp_parameters =
            interp_comp_spectral_params env freq_GHz (emissivities m)
              (emissivity_spectrum m) (albedos m) (albedo_spectrum m);
          log0 = GetBody ''Earth'' # fst opos @ [InterpPhaseCoeffs, InterpCompSpectralParams]
      in
        (case map_of (comps m) CLOUD of
           None \<Rightarrow> (log0, Inl KeyError)
         | Some cloud \<Rightarrow>
             (log0,
              Inr (trapezoidal_call env self (colorcorr_table a) freq_GHz (snd opos)
                     earth_pos (X_0 cloud) spectral_comp_parameters pc))))"

text \<open>
  \<^verbatim>\<open>get_emission\<close>: the result, and before it the calls to the collaborators in the
  order in which they were made. After the checks of the arguments a binned call
  has its \<open>nside\<close>; the branch for a binned call without it is never taken.
\<close>

definition get_emission ::
  "'tab env \<Rightarrow> 'tab zodipy \<Rightarrow> args \<Rightarrow> event list \<times> (error + emission)" where
  "get_emission env self a =
     (case check_arguments env a of
        Inl e \<Rightarrow> ([], Inl e)
      | Inr angles \<Rightarrow>
          (case prepare_integration env self a of
             (log0, Inl e) \<Rightarrow> (log0, Inl e)
           | (log0, Inr f) \<Rightarrow>
               if binned a then
                 (case nside a of
                    None \<Rightarrow> (log0, Inl BinnedWithoutNside)
                  | Some n \<Rightarrow>
                      (case binned_directions env a n angles of
                         Inl e \<Rightarrow> (log0, Inl e)
                       | Inr (unique_pixels, counts, unit_vectors) \<Rightarrow>
                           (let npix = nat (nside2npix n);
                                r = binned_loop f unit_vectors unique_pixels
                                      (enumerate 0 (comps (model self)))
                                      (replicate (ncomps (model self)) (replicate npix 0))
                            in (log0 @ fst r,
                                bind_err (snd r) (\<lambda>em.
                                bind_err (imul_columns em npix unique_pixels counts)
                                  (\<lambda>em'. Inr (finish (return_comps a) npix em')))))))
               else
                 (case timestream_directions env a angles of
                    Inl e \<Rightarrow> (log0, Inl e)
                  | Inr (indicies, unit_vectors, n) \<Rightarrow>
                      (let r = timestream_loop f unit_vectors indicies
                                 (enumerate 0 (comps (model self)))
                                 (replicate (ncomps (model self)) (replicate n 0))
                       in (log0 @ fst r,
                           bind_err (snd r) (\<lambda>em. Inr (finish (return_comps a) n em)))))))"

text \<open>The values of a result at one direction or pixel: one for every component, or
  the sum alone.\<close>

fun emission_at :: "emission \<Rightarrow> nat \<Rightarrow> real list" where
  "emission_at (PerComp rows) j = map (\<lambda>row. row ! j) rows"
| "emission_at (Summed tot) j = [tot ! j]"

text \<open>The directions of a call as the caller lists them, the distinct ones among
  them in the order of \<^verbatim>\<open>np.unique\<close>, and the pixel of a direction: the pixel
  itself, or the pixel of the pair of angles at the resolution of the call.\<close>

datatype direction = Pixel int | Angles real real

definition input_directions :: "args \<Rightarrow> direction list" where
  "input_directions a =
     (case pixels a of
        Some ps \<Rightarrow> map Pixel ps
      | None \<Rightarrow>
          (case converted_angles a of
             Some (t, p) \<Rightarrow> map (\<lambda>(t, p). Angles t p) (zip t p)
           | None \<Rightarrow> []))"

definition unique_directions :: "args \<Rightarrow> direction list" where
  "unique_directions a =
     (case pixels a of
        Some ps \<Rightarrow> map Pixel (np_unique ps)
      | None \<Rightarrow>
          (case converted_angles a of
             Some (t, p) \<Rightarrow> map (\<lambda>(t, p). Angles t p) (np_unique (zip t p))
           | None \<Rightarrow> []))"

fun pixel_of :: "'tab env \<Rightarrow> args \<Rightarrow> direction \<Rightarrow> int" where
  "pixel_of env a (Pixel p) = p"
| "pixel_of env a (Angles t p) =
     (case nside a of Some n \<Rightarrow> ang2pix env n t p (lonlat a) | None \<Rightarrow> 0)"

text \<open>The integrations among the calls of a log.\<close>

fun is_integration :: "event \<Rightarrow> bool" where
  "is_integration (Trapezoidal label unit_vectors) = True"
| "is_integration e = False"

text \<open>The number of values of a result for each component, or of the sum.\<close>

fun widths :: "emission \<Rightarrow> nat list" where
  "widths (PerComp rows) = map length rows"
| "widths (Summed tot) = [length tot]"

subsection \<open>Concrete collaborators, a model and arguments\<close>

text \<open>
  A small environment on which the functions above can be run: two bodies, the Earth
  at \<open>(1, 0, 0)\<close>, a unit conversion that keeps the number, pixel \<open>p\<close> in direction
  \<open>(p, 0, 0)\<close>, every pair of angles in pixel \<open>0\<close>, no rotation, and an integrator
  that returns the first coordinate of each unit vector plus two. The model has two
  components; the call asks for the pixels \<open>3, 5, 3\<close> at \<open>nside = 1\<close>.
\<close>

definition example_env :: "unit env" where
  "example_env =
     \<lparr>bodies = [''earth'', ''moon''],
      get_body = (\<lambda>name t. (1, 0, 0)),
      to_unit = (\<lambda>q u. q\<lparr>q_unit := u\<rparr>),
      pix2vec = (\<lambda>n p. (of_int p, 0, 0)),
      ang2vec = (\<lambda>t p l. (t, p, 0)),
      ang2pix = (\<lambda>n t p l. 0),
      rotator = (\<lambda>c v. v),
      interp_phase_coeffs = (\<lambda>f t1 t2. [0, 0, 0]),
      interp_comp_spectral_params = (\<lambda>f t1 t2 t3 t4 l. Some \<lparr>emissivity = 1, albedo = 0\<rparr>),
      trapezoidal = (\<lambda>cp f los op ep uv co t0 d e al pc cc. map (\<lambda>(x, y, z). x + 2) uv)\<rparr>"

definition example_zodipy :: "unit zodipy" where
  "example_zodipy =
     \<lparr>model =
        \<lparr>comps = [(CLOUD, \<lparr>X_0 = (0, 0, 0), shape_params = []\<rparr>),
                   (RING, \<lparr>X_0 = (0, 0, 0), shape_params = []\<rparr>)],
         ncomps = 2, T_0 = 286, delta = 467 / 1000,
         emissivities = (), emissivity_spectrum = (), albedos = (), albedo_spectrum = (),
         phase_coeffs = (), phase_coeffs_spectrum = ()\<rparr>,
      line_of_sights = (\<lambda>l. Some [1, 2])\<rparr>"

definition example_args :: args where
  "example_args =
     \<lparr>freq = \<lparr>magnitude = 857, q_unit = ''GHz''\<rparr>, obs_time = 0, obs = ''earth'',
      obs_pos = None, pixels = Some [3, 5, 3], theta = None, phi = None, nside = Some 1,
      lonlat = False, binned = False, return_comps = True, coord_out = ''E'',
      colorcorr_table = None\<rparr>"

definition example_attrs :: zodipy_attrs where
  "example_attrs =
     \<lparr>extrapolate = False, model_name = ''Planck18'', spectrum = [100, 857, 353],
      spectrum_unit = ''GHz''\<rparr>"

text \<open>A call with two pairs of angles, \<open>(1, 0)\<close> and \<open>(2, 0)\<close>; the concrete
  \<open>ang2pix\<close> puts both into pixel \<open>0\<close>.\<close>

definition two_angles_args :: args where
  "two_angles_args =
     example_args\<lparr>pixels := None,
       theta := Some \<lparr>angle_values = [1, 2], angle_unit = Rad\<rparr>,
       phi := Some \<lparr>angle_values = [0, 0], angle_unit = Rad\<rparr>\<rparr>"

text \<open>
  The same collaborators for a model whose tables are lists of numbers: the three
  spectra are the grid \<open>100, 353, 857\<close> GHz. \<^verbatim>\<open>get_emission\<close> hands the tables to the
  two interpolations and reads nothing of them itself.
\<close>

definition tabulated_env :: "real list env" where
  "tabulated_env =
     \<lparr>bodies = [''earth'', ''moon''],
      get_body = (\<lambda>name t. (1, 0, 0)),
      to_unit = (\<lambda>q u. q\<lparr>q_unit := u\<rparr>),
      pix2vec = (\<lambda>n p. (of_int p, 0, 0)),
      ang2vec = (\<lambda>t p l. (t, p, 0)),
      ang2pix = (\<lambda>n t p l. 0),
      rotator = (\<lambda>c v. v),
      interp_phase_coeffs = (\<lambda>f t1 t2. [0, 0, 0]),
      interp_comp_spectral_params = (\<lambda>f t1 t2 t3 t4 l. Some \<lparr>emissivity = 1, albedo = 0\<rparr>),
      trapezoidal = (\<lambda>cp f los op ep uv co t0 d e al pc cc. map (\<lambda>(x, y, z). x + 2) uv)\<rparr>"

definition tabulated_zodipy :: "real list zodipy" where
  "tabulated_zodipy =
     \<lparr>model =
        \<lparr>comps = [(CLOUD, \<lparr>X_0 = (0, 0, 0), shape_params = []\<rparr>),
                   (RING, \<lparr>X_0 = (0, 0, 0), shape_params = []\<rparr>)],
         ncomps = 2, T_0 = 286, delta = 467 / 1000,
         emissivities = [1, 1, 1], emissivity_spectrum = [100, 353, 857],
         albedos = [0, 0, 0], albedo_spectrum = [100, 353, 857],
         phase_coeffs = [0, 0, 0], phase_coeffs_spectrum = [100, 353, 857]\<rparr>,
      line_of_sights = (\<lambda>l. Some [1, 2])\<rparr>"

text \<open>The error of a frequency outside the tabulated spectrum.\<close>

fun is_range_error :: "error \<Rightarrow> bool" where
  "is_range_error (OutOfSpectralRange name lo hi u) = True"
| "is_range_error e = False"

section \<open>Properties of the source functions\<close>






lemma sum_list_scale: "sum_list (map (\<lambda>p. k * p) ys) = k * sum_list (ys :: real list)"
  by (induction ys) (simp_all add: algebra_simps)



text \<open>
  The store under the other calls: \<^verbatim>\<open>interplanetary_temperature\<close> and
  \<^verbatim>\<open>phase_function\<close> do not assign to a parameter, and \<^verbatim>\<open>blackbody_emission\<close> leaves
  the store alone when its frequency is a Python float.
\<close>

lemma interplanetary_temperature_store: "fst (interplanetary_temperature s R t d) = s"
  by (simp add: interplanetary_temperature_def)

lemma phase_function_store: "fst (phase_function s Th C) = s"
  by (simp add: phase_function_def Let_def)

lemma blackbody_emission_store_scalar: "fst (blackbody_emission k s T (Float f)) = s"
  by (simp add: blackbody_emission_def)

text \<open>
  Claim C8, at an array argument: after \<^verbatim>\<open>blackbody_emission(300.0, freq)\<close> with
  \<open>freq\<close> the array \<open>[30.0]\<close>, the caller's array holds \<open>[3e10]\<close>; after
  \<^verbatim>\<open>blackbody_emission_wavelen(300.0, wavelen)\<close> with \<open>wavelen\<close> the array \<open>[25.0]\<close>,
  the caller's array holds \<open>[2.5e-5]\<close>. The augmented assignments \<^verbatim>\<open>freq *= 1e9\<close> and
  \<^verbatim>\<open>wavelen *= 1e-6\<close> update the argument in place.
\<close>

theorem blackbody_emission_updates_argument:
  "fst (blackbody_emission codata2018 ((\<lambda>_. [])(0 := [30])) (Float 300) (NdArray 0)) 0
     = [30 * 10 ^ 9] \<and>
   fst (blackbody_emission_wavelen codata2018 ((\<lambda>_. [])(0 := [25])) (Float 300) (NdArray 0)) 0
     = [25 / 10 ^ 6]"
  by (simp add: blackbody_emission_def blackbody_emission_wavelen_def)

section \<open>Properties of the input validation\<close>

lemma np_min_Min: "xs \<noteq> [] \<Longrightarrow> np_min xs = Inr (Min (set xs))"
proof (cases xs)
  case Nil
  moreover assume "xs \<noteq> []"
  ultimately show ?thesis by simp
next
  case (Cons x ys)
  then show ?thesis using Min.set_eq_fold [of x ys] by simp
qed

lemma np_max_Max: "xs \<noteq> [] \<Longrightarrow> np_max xs = Inr (Max (set xs))"
proof (cases xs)
  case Nil
  moreover assume "xs \<noteq> []"
  ultimately show ?thesis by simp
next
  case (Cons x ys)
  then show ?thesis using Max.set_eq_fold [of x ys] by simp
qed

text \<open>
  \<^verbatim>\<open>validate_frequency\<close> with extrapolation disabled and a tabulated spectrum that is
  not empty. A frequency that, converted to the unit of the spectrum, lies between
  the smallest and the largest tabulated value, both included, passes: the wrapped
  function is called with the frequency converted to GHz, if the wrapper was given no
  further positional argument, and the call raises \<^verbatim>\<open>TypeError\<close> otherwise. A
  frequency below the smallest or above the largest value is rejected with the error
  that carries the model's name, the two bounds and the unit, whatever the wrapped
  function and the further arguments are: the function is not called.
\<close>

lemma validate_frequency_range:
  assumes "\<not> extrapolate z" "spectrum z \<noteq> []"
  shows "(Min (set (spectrum z)) \<le> magnitude (to_u q (spectrum_unit z)) \<and>
          magnitude (to_u q (spectrum_unit z)) \<le> Max (set (spectrum z)) \<longrightarrow>
            validate_frequency to_u g z q extra =
              (if extra = [] then g z (to_u (to_u q (spectrum_unit z)) ''GHz'')
               else Inl TypeError)) \<and>
         (magnitude (to_u q (spectrum_unit z)) < Min (set (spectrum z)) \<or>
          Max (set (spectrum z)) < magnitude (to_u q (spectrum_unit z)) \<longrightarrow>
            validate_frequency to_u g z q extra =
              Inl (OutOfSpectralRange (model_name z) (Min (set (spectrum z)))
                     (Max (set (spectrum z))) (spectrum_unit z)))"
proof -
  let ?f = "magnitude (to_u q (spectrum_unit z))"
  let ?V = "validate_frequency to_u g z q extra"
  let ?A = "if extra = [] then g z (to_u (to_u q (spectrum_unit z)) ''GHz'') else Inl TypeError"
  let ?B = "\<lambda>lo hi. Inl (OutOfSpectralRange (model_name z) lo hi (spectrum_unit z))"
  have unfold: "?V = (if Min (set (spectrum z)) \<le> ?f \<and> ?f \<le> Max (set (spectrum z))
                      then ?A else ?B (Min (set (spectrum z))) (Max (set (spectrum z))))"
    using assms by (simp add: validate_frequency_def np_min_Min np_max_Max Let_def)
  have "\<And>lo hi. ?V = (if lo \<le> ?f \<and> ?f \<le> hi then ?A else ?B lo hi) \<Longrightarrow>
          (lo \<le> ?f \<and> ?f \<le> hi \<longrightarrow> ?V = ?A) \<and> (?f < lo \<or> hi < ?f \<longrightarrow> ?V = ?B lo hi)"
    by auto
  from this [OF unfold] show ?thesis .
qed

text \<open>With extrapolation enabled the range is not checked.\<close>

lemma validate_frequency_extrapolate:
  "extrapolate z \<Longrightarrow>
     validate_frequency to_u g z q extra =
       (if extra = [] then g z (to_u q ''GHz'') else Inl TypeError)"
  by (simp add: validate_frequency_def)

text \<open>On the spectrum 100, 857, 353 GHz: the frequencies 100 and 857 GHz pass, 99 and
  858 GHz are rejected, and 100 GHz with the time of the observation as a further
  positional argument ends in \<^verbatim>\<open>TypeError\<close>.\<close>

lemma validate_frequency_examples:
  "validate_frequency (to_unit example_env) (\<lambda>z q. Inr (magnitude q)) example_attrs
     \<lparr>magnitude = 100, q_unit = ''GHz''\<rparr> ([] :: real list) = (Inr 100 :: error + real) \<and>
   validate_frequency (to_unit example_env) (\<lambda>z q. Inr (magnitude q)) example_attrs
     \<lparr>magnitude = 857, q_unit = ''GHz''\<rparr> ([] :: real list) = (Inr 857 :: error + real) \<and>
   validate_frequency (to_unit example_env) (\<lambda>z q. Inr (magnitude q)) example_attrs
     \<lparr>magnitude = 99, q_unit = ''GHz''\<rparr> ([] :: real list) =
       (Inl (OutOfSpectralRange ''Planck18'' 100 857 ''GHz'') :: error + real) \<and>
   validate_frequency (to_unit example_env) (\<lambda>z q. Inr (magnitude q)) example_attrs
     \<lparr>magnitude = 858, q_unit = ''GHz''\<rparr> ([] :: real list) =
       (Inl (OutOfSpectralRange ''Planck18'' 100 857 ''GHz'') :: error + real) \<and>
   validate_frequency (to_unit example_env) (\<lambda>z q. Inr (magnitude q)) example_attrs
     \<lparr>magnitude = 100, q_unit = ''GHz''\<rparr> [0 :: real] = (Inl TypeError :: error + real)"
  by (simp add: validate_frequency_def example_attrs_def example_env_def)

text \<open>
  Claim C4 says that a pixel index outside \<open>[0, 12 * nside^2 - 1]\<close> is rejected. At
  \<open>nside = 1\<close> the valid indices are \<open>0\<close> to \<open>11\<close>. \<^verbatim>\<open>validate_pixels\<close> compares the
  largest index with the number of pixels by \<^verbatim>\<open>>\<close>: it passes the index \<open>12\<close> and the
  index \<open>-1\<close> on to the wrapped function, and rejects \<open>13\<close>.
\<close>

theorem validate_pixels_accepts_npix:
  "validate_pixels g [12] 1 = g [12] 1 \<and>
   validate_pixels g [-1] 1 = g [-1] 1 \<and>
   validate_pixels g [13] 1 = Inl InvalidPixelNumber"
  by (simp add: validate_pixels_def nside2npix_def)

section \<open>Lemmas on the NumPy operations\<close>

lemma bind_err_Inr: "bind_err m f = Inr y \<longleftrightarrow> (\<exists>x. m = Inr x \<and> f x = Inr y)"
  by (cases m) auto

lemma set_np_unique: "set (np_unique xs) = set xs"
  by (simp add: np_unique_def)

lemma distinct_np_unique: "distinct (np_unique xs)"
  by (simp add: np_unique_def)

lemma index_of_less: "x \<in> set ys \<Longrightarrow> index_of ys x < length ys"
  by (induction ys) auto

lemma nth_index_of: "x \<in> set ys \<Longrightarrow> ys ! index_of ys x = x"
  by (induction ys) auto

lemma length_unique_inverse: "length (unique_inverse xs) = length xs"
  by (simp add: unique_inverse_def)

lemma unique_inverse_less:
  "i < length xs \<Longrightarrow> unique_inverse xs ! i < length (np_unique xs)"
  by (simp add: unique_inverse_def index_of_less set_np_unique)

lemma np_unique_inverse:
  "i < length xs \<Longrightarrow> np_unique xs ! (unique_inverse xs ! i) = xs ! i"
  by (simp add: unique_inverse_def nth_index_of set_np_unique)

lemma unique_inverse_eq:
  "i < length xs \<Longrightarrow> j < length xs \<Longrightarrow> xs ! i = xs ! j \<Longrightarrow>
     unique_inverse xs ! i = unique_inverse xs ! j"
  by (simp add: unique_inverse_def)

lemma length_unique_counts: "length (unique_counts xs) = length (np_unique xs)"
  by (simp add: unique_counts_def)

lemma unique_counts_nth:
  "k < length (np_unique xs) \<Longrightarrow> unique_counts xs ! k = int (count_list xs (np_unique xs ! k))"
  by (simp add: unique_counts_def)

lemma take_indices_Inr:
  "take_indices vals js = Inr r \<Longrightarrow> r = map (nth vals) js \<and> (\<forall>j\<in>set js. j < length vals)"
  by (induction js arbitrary: r) (auto simp: bind_err_Inr split: if_splits)

lemma length_put: "length (put js vs row) = length row"
proof -
  have "length (fold (\<lambda>(j, v) r. r[j := v]) ps row) = length row" for ps
    by (induction ps arbitrary: row) auto
  then show ?thesis by (simp add: put_def)
qed

lemma put_Cons: "put (j # js) (v # vs) row = put js vs (row[j := v])"
  by (simp add: put_def)

lemma put_Nil: "put [] vs row = row" "put js [] row = row"
  by (simp_all add: put_def)

lemma put_nth_other: "q \<notin> set js \<Longrightarrow> put js vs row ! q = row ! q"
proof (induction js arbitrary: vs row)
  case Nil
  then show ?case by (simp add: put_Nil)
next
  case (Cons j js)
  then show ?case by (cases vs) (simp_all add: put_Nil put_Cons)
qed

lemma put_nth_written:
  "distinct js \<Longrightarrow> length vs = length js \<Longrightarrow> k < length js \<Longrightarrow> js ! k < length row \<Longrightarrow>
     put js vs row ! (js ! k) = vs ! k"
proof (induction js arbitrary: vs row k)
  case Nil
  then show ?case by simp
next
  case (Cons j js)
  then obtain v vs' where vs: "vs = v # vs'" by (cases vs) auto
  show ?case
  proof (cases k)
    case 0
    with Cons.prems vs show ?thesis
      by (simp add: put_Cons put_nth_other)
  next
    case (Suc k')
    with Cons.prems vs Cons.IH [of vs' k' "row[j := v]"] show ?thesis
      by (simp add: put_Cons)
  qed
qed

lemma np_index_Inr: "np_index n i = Inr j \<Longrightarrow> j < n \<and> (0 \<le> i \<longrightarrow> j = nat i)"
  by (auto simp: np_index_def split: if_splits)

lemma np_indices_Inr:
  "np_indices n up = Inr js \<Longrightarrow>
     length js = length up \<and> (\<forall>k<length up. np_index n (up ! k) = Inr (js ! k))"
proof (induction up arbitrary: js)
  case Nil
  then show ?case by simp
next
  case (Cons i up)
  then obtain j js' where j: "np_index n i = Inr j" and js': "np_indices n up = Inr js'"
    and js: "js = j # js'"
    by (auto simp: bind_err_Inr)
  from Cons.IH [OF js'] j js show ?case
    by (auto simp: nth_Cons')
qed

lemma np_indices_nonneg:
  assumes "np_indices n up = Inr js" "\<forall>p\<in>set up. 0 \<le> p"
  shows "js = map nat up" "\<forall>p\<in>set up. nat p < n"
proof -
  from np_indices_Inr [OF assms(1)]
  have len: "length js = length up" and ix: "\<forall>k<length up. np_index n (up ! k) = Inr (js ! k)"
    by simp_all
  have *: "js ! k = nat (up ! k) \<and> nat (up ! k) < n" if "k < length up" for k
    using ix that assms(2) np_index_Inr [of n "up ! k" "js ! k"] by auto
  show "js = map nat up"
    using len * by (intro nth_equalityI) simp_all
  show "\<forall>p\<in>set up. nat p < n"
    using * by (auto simp: in_set_conv_nth)
qed

section \<open>The two loops over the components\<close>

text \<open>
  A loop that ends without an error leaves every row outside the range of the
  components as it was; the row of a component holds what the integrator returned
  for it, read at the inverse indices or written at the pixels.
\<close>

lemma assign_row_Inr:
  "assign_row em idx vals = Inr em1 \<longleftrightarrow> idx < length em \<and> em1 = em[idx := vals]"
  by (auto simp: assign_row_def)

lemma timestream_loop_Cons_Inr:
  assumes "timestream_loop f uv ind ((k, label, cp) # rest) em = (lg, Inr em')"
  obtains T lg1 where "f uv label cp = Inr T" "\<forall>j\<in>set ind. j < length T" "k < length em"
    "timestream_loop f uv ind rest (em[k := map (nth T) ind]) = (lg1, Inr em')"
    "lg = Trapezoidal label uv # lg1"
proof -
  from assms obtain T where T: "f uv label cp = Inr T"
    by (cases "f uv label cp") auto
  from assms T obtain em1 where em1: "bind_err (take_indices T ind) (assign_row em k) = Inr em1"
    by (cases "bind_err (take_indices T ind) (assign_row em k)") auto
  then obtain vals where vals: "take_indices T ind = Inr vals" and a: "assign_row em k vals = Inr em1"
    by (auto simp: bind_err_Inr)
  from take_indices_Inr [OF vals] have v: "vals = map (nth T) ind" and b: "\<forall>j\<in>set ind. j < length T"
    by simp_all
  from a have k: "k < length em" and e: "em1 = em[k := vals]"
    by (simp_all add: assign_row_Inr)
  obtain lg1 r1 where r: "timestream_loop f uv ind rest em1 = (lg1, r1)"
    by (cases "timestream_loop f uv ind rest em1") auto
  from assms T em1 r have "lg = Trapezoidal label uv # lg1" "r1 = Inr em'"
    by (simp_all add: Let_def)
  with T b k e v r that show thesis by simp
qed

lemma timestream_loop_rows:
  "timestream_loop f uv ind (enumerate k cs) em = (lg, Inr em') \<Longrightarrow>
     length em' = length em \<and> lg = map (\<lambda>c. Trapezoidal (fst c) uv) cs \<and>
     (\<forall>r<length em.
        (\<not> (k \<le> r \<and> r < k + length cs) \<longrightarrow> em' ! r = em ! r) \<and>
        (k \<le> r \<and> r < k + length cs \<longrightarrow>
           (\<exists>T. f uv (fst (cs ! (r - k))) (snd (cs ! (r - k))) = Inr T \<and>
                (\<forall>j\<in>set ind. j < length T) \<and> em' ! r = map (nth T) ind)))"
proof (induction cs arbitrary: k em lg)
  case Nil
  then show ?case by auto
next
  case (Cons c cs)
  obtain label cp where c: "c = (label, cp)" by (cases c) auto
  from Cons.prems c
  have "timestream_loop f uv ind ((k, label, cp) # enumerate (Suc k) cs) em = (lg, Inr em')"
    by simp
  then obtain T lg1 where T: "f uv label cp = Inr T" and b: "\<forall>j\<in>set ind. j < length T"
    and k: "k < length em"
    and r: "timestream_loop f uv ind (enumerate (Suc k) cs) (em[k := map (nth T) ind]) = (lg1, Inr em')"
    and lg: "lg = Trapezoidal label uv # lg1"
    by (rule timestream_loop_Cons_Inr)
  let ?em1 = "em[k := map (nth T) ind]"
  from Cons.IH [OF r]
  have len: "length em' = length em" and lg1: "lg1 = map (\<lambda>c. Trapezoidal (fst c) uv) cs"
    and rows: "\<And>r. r < length em \<Longrightarrow>
        (\<not> (Suc k \<le> r \<and> r < Suc k + length cs) \<longrightarrow> em' ! r = ?em1 ! r) \<and>
        (Suc k \<le> r \<and> r < Suc k + length cs \<longrightarrow>
           (\<exists>T. f uv (fst (cs ! (r - Suc k))) (snd (cs ! (r - Suc k))) = Inr T \<and>
                (\<forall>j\<in>set ind. j < length T) \<and> em' ! r = map (nth T) ind))"
    by simp_all
  have "(\<not> (k \<le> r \<and> r < k + length (c # cs)) \<longrightarrow> em' ! r = em ! r) \<and>
        (k \<le> r \<and> r < k + length (c # cs) \<longrightarrow>
           (\<exists>T. f uv (fst ((c # cs) ! (r - k))) (snd ((c # cs) ! (r - k))) = Inr T \<and>
                (\<forall>j\<in>set ind. j < length T) \<and> em' ! r = map (nth T) ind))"
    if "r < length em" for r
  proof (cases "r = k")
    case True
    with rows [OF that] k T b c show ?thesis by auto
  next
    case False
    have "(c # cs) ! (r - k) = cs ! (r - Suc k)" if "Suc k \<le> r"
      using that by (simp add: nth_Cons')
    with rows [OF \<open>r < length em\<close>] False show ?thesis
      by (cases "Suc k \<le> r") auto
  qed
  with len lg lg1 c show ?case by simp
qed

lemma assign_at_Inr:
  "assign_at em idx up vals = Inr em1 \<longleftrightarrow>
     idx < length em \<and> (\<exists>row. fancy_assign (em ! idx) up vals = Inr row \<and> em1 = em[idx := row])"
  by (auto simp: assign_at_def bind_err_Inr)

lemma binned_loop_Cons_Inr:
  assumes "binned_loop f uv up ((k, label, cp) # rest) em = (lg, Inr em')"
  obtains T row lg1 where "f uv label cp = Inr T" "k < length em"
    "fancy_assign (em ! k) up T = Inr row"
    "binned_loop f uv up rest (em[k := row]) = (lg1, Inr em')"
    "lg = Trapezoidal label uv # lg1"
proof -
  from assms obtain T where T: "f uv label cp = Inr T"
    by (cases "f uv label cp") auto
  from assms T obtain em1 where em1: "assign_at em k up T = Inr em1"
    by (cases "assign_at em k up T") auto
  then obtain row where k: "k < length em" and row: "fancy_assign (em ! k) up T = Inr row"
    and e: "em1 = em[k := row]"
    by (auto simp: assign_at_Inr)
  obtain lg1 r1 where r: "binned_loop f uv up rest em1 = (lg1, r1)"
    by (cases "binned_loop f uv up rest em1") auto
  from assms T em1 r have "lg = Trapezoidal label uv # lg1" "r1 = Inr em'"
    by (simp_all add: Let_def)
  with T k row e r that show thesis by simp
qed

lemma binned_loop_rows:
  "binned_loop f uv up (enumerate k cs) em = (lg, Inr em') \<Longrightarrow>
     length em' = length em \<and> lg = map (\<lambda>c. Trapezoidal (fst c) uv) cs \<and>
     (\<forall>r<length em.
        (\<not> (k \<le> r \<and> r < k + length cs) \<longrightarrow> em' ! r = em ! r) \<and>
        (k \<le> r \<and> r < k + length cs \<longrightarrow>
           (\<exists>T. f uv (fst (cs ! (r - k))) (snd (cs ! (r - k))) = Inr T \<and>
                fancy_assign (em ! r) up T = Inr (em' ! r))))"
proof (induction cs arbitrary: k em lg)
  case Nil
  then show ?case by auto
next
  case (Cons c cs)
  obtain label cp where c: "c = (label, cp)" by (cases c) auto
  from Cons.prems c
  have "binned_loop f uv up ((k, label, cp) # enumerate (Suc k) cs) em = (lg, Inr em')"
    by simp
  then obtain T row lg1 where T: "f uv label cp = Inr T" and k: "k < length em"
    and row: "fancy_assign (em ! k) up T = Inr row"
    and r: "binned_loop f uv up (enumerate (Suc k) cs) (em[k := row]) = (lg1, Inr em')"
    and lg: "lg = Trapezoidal label uv # lg1"
    by (rule binned_loop_Cons_Inr)
  let ?em1 = "em[k := row]"
  from Cons.IH [OF r]
  have len: "length em' = length em" and lg1: "lg1 = map (\<lambda>c. Trapezoidal (fst c) uv) cs"
    and rows: "\<And>r. r < length em \<Longrightarrow>
        (\<not> (Suc k \<le> r \<and> r < Suc k + length cs) \<longrightarrow> em' ! r = ?em1 ! r) \<and>
        (Suc k \<le> r \<and> r < Suc k + length cs \<longrightarrow>
           (\<exists>T. f uv (fst (cs ! (r - Suc k))) (snd (cs ! (r - Suc k))) = Inr T \<and>
                fancy_assign (?em1 ! r) up T = Inr (em' ! r)))"
    by simp_all
  have "(\<not> (k \<le> r \<and> r < k + length (c # cs)) \<longrightarrow> em' ! r = em ! r) \<and>
        (k \<le> r \<and> r < k + length (c # cs) \<longrightarrow>
           (\<exists>T. f uv (fst ((c # cs) ! (r - k))) (snd ((c # cs) ! (r - k))) = Inr T \<and>
                fancy_assign (em ! r) up T = Inr (em' ! r)))"
    if "r < length em" for r
  proof (cases "r = k")
    case True
    with rows [OF that] k T row c show ?thesis by auto
  next
    case False
    have "(c # cs) ! (r - k) = cs ! (r - Suc k)" if "Suc k \<le> r"
      using that by (simp add: nth_Cons')
    with rows [OF \<open>r < length em\<close>] False show ?thesis
      by (cases "Suc k \<le> r") auto
  qed
  with len lg lg1 c show ?case by simp
qed

section \<open>Properties of \<^verbatim>\<open>get_emission\<close>\<close>

subsection \<open>Directions, and what a call that returns has computed\<close>

lemma index_of_map_inj: "inj g \<Longrightarrow> index_of (map g ys) (g x) = index_of ys x"
  by (induction ys) (auto simp: inj_eq)

lemma count_list_map_inj: "inj g \<Longrightarrow> count_list (map g xs) (g x) = count_list xs x"
  by (induction xs) (auto simp: inj_eq)

lemma inj_Pixel: "inj Pixel"
  by (simp add: inj_def)

lemma inj_Angles: "inj (\<lambda>(t, p). Angles t p)"
  by (auto simp: inj_def)

lemma distinct_unique_directions: "distinct (unique_directions a)"
  using inj_Pixel inj_Angles
  by (auto simp: unique_directions_def distinct_map distinct_np_unique
      intro: inj_on_subset split: option.splits)

lemma set_unique_directions: "set (unique_directions a) = set (input_directions a)"
  by (auto simp: unique_directions_def input_directions_def set_np_unique split: option.splits)

lemma check_arguments_Inr:
  "check_arguments env a = Inr angles \<Longrightarrow> angles = converted_angles a"
  by (auto simp: check_arguments_def Let_def split: if_splits)

lemma check_arguments_nside:
  "check_arguments env a = Inr angles \<Longrightarrow> (pixels a \<noteq> None \<or> binned a) \<Longrightarrow> nside a \<noteq> None"
  by (auto simp: check_arguments_def Let_def split: if_splits)

lemma converted_angles_binned [simp]: "converted_angles (a\<lparr>binned := b\<rparr>) = converted_angles a"
  by (simp add: converted_angles_def cong: option.case_cong if_cong)

lemma input_directions_binned [simp]: "input_directions (a\<lparr>binned := b\<rparr>) = input_directions a"
  by (simp add: input_directions_def cong: option.case_cong)

lemma prepare_integration_binned [simp]:
  "prepare_integration env self (a\<lparr>binned := b\<rparr>) = prepare_integration env self a"
  by (simp add: prepare_integration_def observer_position_def cong: option.case_cong if_cong)

lemma timestream_directions_facts:
  assumes "timestream_directions env a (converted_angles a) = Inr (ind, uv, n)"
  shows "n = length (input_directions a)"
    and "ind = map (index_of (unique_directions a)) (input_directions a)"
proof -
  show "n = length (input_directions a)"
    using assms
    by (auto simp: timestream_directions_def input_directions_def
        split: option.splits if_splits)
  show "ind = map (index_of (unique_directions a)) (input_directions a)"
    using assms
    by (auto simp: timestream_directions_def input_directions_def unique_directions_def
        unique_inverse_def index_of_map_inj [OF inj_Pixel]
        index_of_map_inj [OF inj_Angles, of _ "(t, p)" for t p, simplified]
        split: option.splits if_splits)
qed

lemma binned_directions_facts:
  assumes "binned_directions env a n (converted_angles a) = Inr (up, counts, uv)"
    and "nside a = Some n"
  shows "up = map (pixel_of env a) (unique_directions a)"
    and "counts = map (\<lambda>d. int (count_list (input_directions a) d)) (unique_directions a)"
    and "timestream_directions env (a\<lparr>binned := False\<rparr>) (converted_angles a) = Inr (ind, uv', n')
           \<Longrightarrow> uv' = uv"
proof -
  show "up = map (pixel_of env a) (unique_directions a)"
    using assms
    by (auto simp: binned_directions_def unique_directions_def Let_def comp_def
        split: option.splits if_splits)
  show "counts = map (\<lambda>d. int (count_list (input_directions a) d)) (unique_directions a)"
    using assms
    by (auto simp: binned_directions_def unique_directions_def input_directions_def Let_def
        unique_counts_def count_list_map_inj [OF inj_Pixel]
        count_list_map_inj [OF inj_Angles, of _ "(t, p)" for t p, simplified]
        split: option.splits if_splits)
  show "uv' = uv"
    if "timestream_directions env (a\<lparr>binned := False\<rparr>) (converted_angles a) = Inr (ind, uv', n')"
    using assms that
    by (auto simp: binned_directions_def timestream_directions_def Let_def
        split: option.splits if_splits)
qed

lemma get_emission_timestream_Inr:
  assumes "get_emission env self a = (lg, Inr res)" "\<not> binned a"
  obtains log0 f ind uv n lg1 em where
    "prepare_integration env self a = (log0, Inr f)"
    "timestream_directions env a (converted_angles a) = Inr (ind, uv, n)"
    "timestream_loop f uv ind (enumerate 0 (comps (model self)))
       (replicate (ncomps (model self)) (replicate n 0)) = (lg1, Inr em)"
    "res = finish (return_comps a) n em" "lg = log0 @ lg1"
proof -
  from assms(1) obtain angles where c: "check_arguments env a = Inr angles"
    by (cases "check_arguments env a") (auto simp: get_emission_def)
  then have angles: "angles = converted_angles a" by (rule check_arguments_Inr)
  obtain log0 pr where p: "prepare_integration env self a = (log0, pr)"
    by (cases "prepare_integration env self a") auto
  from assms c p obtain f where f: "pr = Inr f"
    by (cases pr) (auto simp: get_emission_def)
  from assms c p f obtain d where d: "timestream_directions env a angles = Inr d"
    by (cases "timestream_directions env a angles") (auto simp: get_emission_def)
  obtain ind uv n where dd: "d = (ind, uv, n)" by (cases d) auto
  obtain lg1 r1 where r: "timestream_loop f uv ind (enumerate 0 (comps (model self)))
       (replicate (ncomps (model self)) (replicate n 0)) = (lg1, r1)"
    by (cases "timestream_loop f uv ind (enumerate 0 (comps (model self)))
       (replicate (ncomps (model self)) (replicate n 0))") auto
  from assms c p f d dd r obtain em where "r1 = Inr em" "res = finish (return_comps a) n em"
    "lg = log0 @ lg1"
    by (auto simp: get_emission_def Let_def bind_err_Inr)
  with that p f d dd r angles show thesis by simp
qed

lemma get_emission_binned_Inr:
  assumes "get_emission env self a = (lg, Inr res)" "binned a"
  obtains log0 f n up counts uv lg1 em em' where
    "prepare_integration env self a = (log0, Inr f)" "nside a = Some n"
    "binned_directions env a n (converted_angles a) = Inr (up, counts, uv)"
    "binned_loop f uv up (enumerate 0 (comps (model self)))
       (replicate (ncomps (model self)) (replicate (nat (nside2npix n)) 0)) = (lg1, Inr em)"
    "imul_columns em (nat (nside2npix n)) up counts = Inr em'"
    "res = finish (return_comps a) (nat (nside2npix n)) em'" "lg = log0 @ lg1"
proof -
  from assms(1) obtain angles where c: "check_arguments env a = Inr angles"
    by (cases "check_arguments env a") (auto simp: get_emission_def)
  then have angles: "angles = converted_angles a" by (rule check_arguments_Inr)
  obtain log0 pr where p: "prepare_integration env self a = (log0, pr)"
    by (cases "prepare_integration env self a") auto
  from assms c p obtain f where f: "pr = Inr f"
    by (cases pr) (auto simp: get_emission_def)
  from assms c p f obtain n where n: "nside a = Some n"
    by (cases "nside a") (auto simp: get_emission_def)
  from assms c p f n obtain d where d: "binned_directions env a n angles = Inr d"
    by (cases "binned_directions env a n angles") (auto simp: get_emission_def)
  obtain up counts uv where dd: "d = (up, counts, uv)" by (cases d) auto
  obtain lg1 r1 where r: "binned_loop f uv up (enumerate 0 (comps (model self)))
       (replicate (ncomps (model self)) (replicate (nat (nside2npix n)) 0)) = (lg1, r1)"
    by (cases "binned_loop f uv up (enumerate 0 (comps (model self)))
       (replicate (ncomps (model self)) (replicate (nat (nside2npix n)) 0))") auto
  from assms c p f n d dd r obtain em em' where "r1 = Inr em"
    "imul_columns em (nat (nside2npix n)) up counts = Inr em'"
    "res = finish (return_comps a) (nat (nside2npix n)) em'" "lg = log0 @ lg1"
    by (auto simp: get_emission_def Let_def bind_err_Inr)
  with that p f n d dd r angles show thesis by simp
qed

lemma emission_at_finish:
  assumes "j < n" "\<forall>row\<in>set em. length row = n"
  shows "emission_at (finish rc n em) j =
           (if rc then map (\<lambda>row. row ! j * MJy_per_sr) em
            else [sum_list (map (\<lambda>row. row ! j * MJy_per_sr) em)])"
proof -
  let ?conv = "map (map (\<lambda>x. x * MJy_per_sr)) em"
  have eq: "map (\<lambda>row. row ! j) ?conv = map (\<lambda>row. row ! j * MJy_per_sr) em"
    using assms by (simp add: comp_def)
  have "emission_at (finish rc n em) j =
          (if rc then map (\<lambda>row. row ! j) ?conv else [sum_list (map (\<lambda>row. row ! j) ?conv)])"
    using assms(1) by (simp add: finish_def Let_def del: map_map)
  then show ?thesis
    by (simp only: eq)
qed

lemma length_rotated_pix2vec: "length (rotated_pix2vec env ps n c) = length ps"
  by (simp add: rotated_pix2vec_def Let_def)

lemma length_rotated_ang2vec: "length (rotated_ang2vec env as l c) = length as"
  by (simp add: rotated_ang2vec_def Let_def)

lemma timestream_directions_length:
  assumes "timestream_directions env a (converted_angles a) = Inr (ind, uv, n)"
  shows "length uv = card (set (input_directions a))"
proof -
  have "length uv = length (unique_directions a)"
    using assms
    by (auto simp: timestream_directions_def unique_directions_def length_rotated_pix2vec
        length_rotated_ang2vec split: option.splits if_splits)
  then show ?thesis
    using distinct_card [OF distinct_unique_directions, of a]
    by (simp add: set_unique_directions)
qed

lemma prepare_integration_log:
  "prepare_integration env self a = (log0, r) \<Longrightarrow> filter is_integration log0 = []"
  by (auto simp: prepare_integration_def observer_position_def Let_def
      split: option.splits if_splits)

lemma filter_integration_map:
  "filter is_integration (map (\<lambda>c. Trapezoidal (fst c) uv) cs) = map (\<lambda>c. Trapezoidal (fst c) uv) cs"
  by (induction cs) simp_all

lemma timestream_rows:
  assumes "get_emission env self a = (lg, Inr res)" "\<not> binned a"
  obtains f uv em where
    "snd (prepare_integration env self a) = Inr f"
    "timestream_directions env a (converted_angles a) =
       Inr (map (index_of (unique_directions a)) (input_directions a), uv,
            length (input_directions a))"
    "res = finish (return_comps a) (length (input_directions a)) em"
    "length em = ncomps (model self)"
    "filter is_integration lg = map (\<lambda>c. Trapezoidal (fst c) uv) (comps (model self))"
    "\<And>r. r < ncomps (model self) \<Longrightarrow> r < length (comps (model self)) \<Longrightarrow>
       \<exists>T. f uv (fst (comps (model self) ! r)) (snd (comps (model self) ! r)) = Inr T \<and>
           (\<forall>d\<in>set (input_directions a). index_of (unique_directions a) d < length T) \<and>
           em ! r = map (\<lambda>d. T ! index_of (unique_directions a) d) (input_directions a)"
    "\<And>r. r < ncomps (model self) \<Longrightarrow> \<not> r < length (comps (model self)) \<Longrightarrow>
       em ! r = replicate (length (input_directions a)) 0"
proof -
  from assms obtain log0 f ind uv n lg1 em where
    p: "prepare_integration env self a = (log0, Inr f)"
    and d: "timestream_directions env a (converted_angles a) = Inr (ind, uv, n)"
    and l: "timestream_loop f uv ind (enumerate 0 (comps (model self)))
       (replicate (ncomps (model self)) (replicate n 0)) = (lg1, Inr em)"
    and res: "res = finish (return_comps a) n em" and lg: "lg = log0 @ lg1"
    by (rule get_emission_timestream_Inr)
  note n = timestream_directions_facts(1) [OF d] and ind = timestream_directions_facts(2) [OF d]
  let ?cs = "comps (model self)" and ?R = "ncomps (model self)"
  from timestream_loop_rows [OF l]
  have len: "length em = ?R" and lg1: "lg1 = map (\<lambda>c. Trapezoidal (fst c) uv) ?cs"
    and rows: "\<And>r. r < ?R \<Longrightarrow>
        (\<not> r < length ?cs \<longrightarrow> em ! r = replicate n 0) \<and>
        (r < length ?cs \<longrightarrow>
           (\<exists>T. f uv (fst (?cs ! r)) (snd (?cs ! r)) = Inr T \<and>
                (\<forall>j\<in>set ind. j < length T) \<and> em ! r = map (nth T) ind))"
    by simp_all
  show thesis
  proof (rule that [of f uv em])
    show "snd (prepare_integration env self a) = Inr f" using p by simp
    show "timestream_directions env a (converted_angles a) =
       Inr (map (index_of (unique_directions a)) (input_directions a), uv,
            length (input_directions a))"
      using d n ind by simp
    show "res = finish (return_comps a) (length (input_directions a)) em"
      using res n by simp
    show "length em = ?R" by (rule len)
    show "filter is_integration lg = map (\<lambda>c. Trapezoidal (fst c) uv) ?cs"
      using lg lg1 prepare_integration_log [OF p] by (simp add: filter_integration_map)
    show "\<exists>T. f uv (fst (?cs ! r)) (snd (?cs ! r)) = Inr T \<and>
           (\<forall>d\<in>set (input_directions a). index_of (unique_directions a) d < length T) \<and>
           em ! r = map (\<lambda>d. T ! index_of (unique_directions a) d) (input_directions a)"
      if "r < ?R" "r < length ?cs" for r
      using rows [OF that(1)] that(2) ind by (auto simp: comp_def)
    show "em ! r = replicate (length (input_directions a)) 0"
      if "r < ?R" "\<not> r < length ?cs" for r
      using rows [OF that(1)] that(2) n by simp
  qed
qed


subsection \<open>Runs on the concrete collaborators\<close>

lemma lower_upper: "lower ''SEMB-L2'' = ''semb-l2''" "lower ''earth'' = ''earth''"
  "lower ''mars-orbiter'' = ''mars-orbiter''"
  by code_simp+


lemmas example_defs = example_env_def example_zodipy_def example_args_def

lemmas get_emission_unfold = get_emission_def check_arguments_def converted_angles_def
  prepare_integration_def observer_position_def trapezoidal_call_def binned_directions_def
  timestream_directions_def finish_def observers_def ADDITIONAL_SUPPORTED_OBSERVERS_def
  lower_upper np_unique_def unique_counts_def unique_inverse_def rotated_pix2vec_def
  rotated_ang2vec_def assign_at_def assign_row_def fancy_assign_def imul_columns_def
  np_index_def broadcast_to_def put_def nside2npix_def MJy_per_sr_def Let_def
  enumerate_eq_zip eval_nat_numeral

lemma example_timestream:
  "get_emission example_env example_zodipy example_args =
     ([GetBody ''Earth'', GetBody ''earth'', InterpPhaseCoeffs, InterpCompSpectralParams,
       Trapezoidal CLOUD [(3, 0, 0), (5, 0, 0)], Trapezoidal RING [(3, 0, 0), (5, 0, 0)]],
      Inr (PerComp [[5 * 10 ^ 20, 7 * 10 ^ 20, 5 * 10 ^ 20],
                    [5 * 10 ^ 20, 7 * 10 ^ 20, 5 * 10 ^ 20]]))"
  by (simp add: get_emission_unfold example_defs)


subsection \<open>Invalid arguments\<close>

text \<open>
  Claim C5. An observer whose lower-cased name is not among the supported ones is
  rejected with the error that names it. With a supported observer: pixels without
  \<open>nside\<close>, \<open>binned\<close> without \<open>nside\<close>, one of \<open>theta\<close> and \<open>phi\<close> without the other, and
  pixels together with angles are each rejected with the error of that check. In
  every one of these cases the list of calls to the collaborators is empty: no
  position was resolved, nothing was interpolated or integrated.
\<close>

theorem get_emission_rejects_invalid_arguments:
  "(lower (obs a) \<notin> set (observers env) \<longrightarrow>
      get_emission env self a = ([], Inl (UnsupportedObserver (obs a)))) \<and>
   (lower (obs a) \<in> set (observers env) \<and> pixels a \<noteq> None \<and> nside a = None \<longrightarrow>
      get_emission env self a = ([], Inl PixelsWithoutNside)) \<and>
   (lower (obs a) \<in> set (observers env) \<and> pixels a = None \<and> binned a \<and> nside a = None \<longrightarrow>
      get_emission env self a = ([], Inl BinnedWithoutNside)) \<and>
   (lower (obs a) \<in> set (observers env) \<and> nside a \<noteq> None \<and>
      ((theta a \<noteq> None \<and> phi a = None) \<or> (phi a \<noteq> None \<and> theta a = None)) \<longrightarrow>
      get_emission env self a = ([], Inl MissingThetaOrPhi)) \<and>
   (lower (obs a) \<in> set (observers env) \<and> nside a \<noteq> None \<and> pixels a \<noteq> None \<and>
      theta a \<noteq> None \<and> phi a \<noteq> None \<longrightarrow>
      get_emission env self a = ([], Inl PixelsAndAngles)) \<and>
   (lower (obs a) \<notin> set (observers env) \<or> (pixels a \<noteq> None \<and> nside a = None) \<or>
      (binned a \<and> nside a = None) \<or> (theta a \<noteq> None \<and> phi a = None) \<or>
      (phi a \<noteq> None \<and> theta a = None) \<or>
      (pixels a \<noteq> None \<and> (theta a \<noteq> None \<or> phi a \<noteq> None)) \<longrightarrow>
      (\<exists>e. get_emission env self a = ([], Inl e) \<and>
           e \<in> {UnsupportedObserver (obs a), PixelsWithoutNside, BinnedWithoutNside,
                 MissingThetaOrPhi, PixelsAndAngles}))"
  by (auto simp: get_emission_def check_arguments_def Let_def)

text \<open>The witness: the observer \<open>mars-orbiter\<close>, and the four invalid combinations.\<close>

theorem get_emission_rejects_invalid_arguments_witness:
  "get_emission example_env example_zodipy (example_args\<lparr>obs := ''mars-orbiter''\<rparr>) =
     ([], Inl (UnsupportedObserver ''mars-orbiter'')) \<and>
   get_emission example_env example_zodipy (example_args\<lparr>nside := None\<rparr>) =
     ([], Inl PixelsWithoutNside) \<and>
   get_emission example_env example_zodipy
       (example_args\<lparr>pixels := None, nside := None, binned := True\<rparr>) =
     ([], Inl BinnedWithoutNside) \<and>
   get_emission example_env example_zodipy
       (example_args\<lparr>pixels := None, theta := Some \<lparr>angle_values = [1], angle_unit = Rad\<rparr>\<rparr>) =
     ([], Inl MissingThetaOrPhi) \<and>
   get_emission example_env example_zodipy
       (example_args\<lparr>theta := Some \<lparr>angle_values = [1], angle_unit = Rad\<rparr>,
          phi := Some \<lparr>angle_values = [0], angle_unit = Rad\<rparr>\<rparr>) =
     ([], Inl PixelsAndAngles)"
  using
    get_emission_rejects_invalid_arguments
      [of "example_args\<lparr>obs := ''mars-orbiter''\<rparr>" example_env example_zodipy]
    get_emission_rejects_invalid_arguments
      [of "example_args\<lparr>nside := None\<rparr>" example_env example_zodipy]
    get_emission_rejects_invalid_arguments
      [of "example_args\<lparr>pixels := None, nside := None, binned := True\<rparr>"
          example_env example_zodipy]
    get_emission_rejects_invalid_arguments
      [of "example_args\<lparr>pixels := None,
             theta := Some \<lparr>angle_values = [1], angle_unit = Rad\<rparr>\<rparr>"
          example_env example_zodipy]
    get_emission_rejects_invalid_arguments
      [of "example_args\<lparr>theta := Some \<lparr>angle_values = [1], angle_unit = Rad\<rparr>,
             phi := Some \<lparr>angle_values = [0], angle_unit = Rad\<rparr>\<rparr>"
          example_env example_zodipy]
  by (simp add: example_args_def example_env_def observers_def
      ADDITIONAL_SUPPORTED_OBSERVERS_def lower_upper)

subsection \<open>The frequency\<close>

text \<open>
  The checks of the arguments do not read the frequency, and no step of
  \<^verbatim>\<open>get_emission\<close> compares it with a spectrum of the model: line 219 converts it to
  GHz, and the number goes to the two interpolations and to the integrator. So no
  call ends in the error of a frequency outside the tabulated spectrum.
\<close>

lemma check_arguments_freq: "check_arguments env (a\<lparr>freq := q\<rparr>) = check_arguments env a"
  by (simp add: check_arguments_def converted_angles_def cong: option.case_cong if_cong)

lemma check_arguments_no_range_error:
  "check_arguments env a = Inl e \<Longrightarrow> \<not> is_range_error e"
  by (auto simp: check_arguments_def Let_def split: if_splits)

lemma prepare_integration_no_range_error:
  "prepare_integration env self a = (lg, Inl e) \<Longrightarrow> \<not> is_range_error e"
  by (auto simp: prepare_integration_def Let_def split: option.splits)

lemma integrator_no_range_error:
  "prepare_integration env self a = (lg, Inr f) \<Longrightarrow> f uv l c = Inl e \<Longrightarrow> \<not> is_range_error e"
  by (auto simp: prepare_integration_def trapezoidal_call_def Let_def split: option.splits)

lemma binned_directions_no_range_error:
  "binned_directions env a n angles = Inl e \<Longrightarrow> \<not> is_range_error e"
  by (auto simp: binned_directions_def Let_def split: option.splits if_splits prod.splits)

lemma timestream_directions_no_range_error:
  "timestream_directions env a angles = Inl e \<Longrightarrow> \<not> is_range_error e"
  by (auto simp: timestream_directions_def Let_def split: option.splits if_splits prod.splits)

lemma np_indices_no_range_error: "np_indices n is = Inl e \<Longrightarrow> \<not> is_range_error e"
proof (induction "is")
  case Nil then show ?case by simp
next
  case (Cons i "is")
  then show ?case
    by (cases "np_index n i"; cases "np_indices n is")
       (auto simp: np_index_def split: if_splits)
qed

lemma take_indices_no_range_error: "take_indices vals js = Inl e \<Longrightarrow> \<not> is_range_error e"
proof (induction js)
  case Nil then show ?case by simp
next
  case (Cons j js)
  then show ?case by (cases "take_indices vals js") (auto split: if_splits)
qed

lemma assign_at_no_range_error:
  "assign_at em idx indices vals = Inl e \<Longrightarrow> \<not> is_range_error e"
  by (cases "np_indices (length (em ! idx)) indices")
     (auto simp: assign_at_def fancy_assign_def broadcast_to_def
           dest: np_indices_no_range_error split: if_splits)

lemma assign_rows_no_range_error:
  "bind_err (take_indices vals js) (assign_row em idx) = Inl e \<Longrightarrow> \<not> is_range_error e"
  by (cases "take_indices vals js")
     (auto simp: assign_row_def dest: take_indices_no_range_error split: if_splits)

lemma imul_columns_no_range_error:
  "imul_columns em n indices counts = Inl e \<Longrightarrow> \<not> is_range_error e"
  by (cases "np_indices n indices")
     (auto simp: imul_columns_def dest: np_indices_no_range_error)

lemma binned_loop_no_range_error:
  assumes "\<And>uv l c e. f uv l c = Inl e \<Longrightarrow> \<not> is_range_error e"
  shows "snd (binned_loop f uv up cs em) = Inl e \<Longrightarrow> \<not> is_range_error e"
proof (induction cs arbitrary: em)
  case Nil then show ?case by simp
next
  case (Cons x cs)
  obtain idx l c where x: "x = (idx, l, c)" by (cases x) auto
  show ?case
  proof (cases "f uv l c")
    case (Inl e') then show ?thesis using Cons.prems assms x by auto
  next
    case (Inr v)
    show ?thesis
    proof (cases "assign_at em idx up v")
      case (Inl e') then show ?thesis
        using Cons.prems x Inr assign_at_no_range_error by auto
    next
      case (Inr em') then show ?thesis
        using Cons.prems x \<open>f uv l c = Inr v\<close> Cons.IH [of em'] by (simp add: Let_def)
    qed
  qed
qed

lemma timestream_loop_no_range_error:
  assumes "\<And>uv l c e. f uv l c = Inl e \<Longrightarrow> \<not> is_range_error e"
  shows "snd (timestream_loop f uv ix cs em) = Inl e \<Longrightarrow> \<not> is_range_error e"
proof (induction cs arbitrary: em)
  case Nil then show ?case by simp
next
  case (Cons x cs)
  obtain idx l c where x: "x = (idx, l, c)" by (cases x) auto
  show ?case
  proof (cases "f uv l c")
    case (Inl e') then show ?thesis using Cons.prems assms x by auto
  next
    case (Inr v)
    show ?thesis
    proof (cases "bind_err (take_indices v ix) (assign_row em idx)")
      case (Inl e') then show ?thesis
        using Cons.prems x Inr assign_rows_no_range_error by auto
    next
      case (Inr em') then show ?thesis
        using Cons.prems x \<open>f uv l c = Inr v\<close> Cons.IH [of em'] by (simp add: Let_def)
    qed
  qed
qed

lemma get_emission_no_range_error:
  assumes "snd (get_emission env self a) = Inl e"
  shows "\<not> is_range_error e"
proof (cases "check_arguments env a")
  case (Inl e') then show ?thesis
    using assms check_arguments_no_range_error by (auto simp: get_emission_def)
next
  case chk: (Inr angles)
  obtain log0 r0 where p: "prepare_integration env self a = (log0, r0)"
    by (cases "prepare_integration env self a") auto
  show ?thesis
  proof (cases r0)
    case (Inl e') then show ?thesis
      using assms chk p prepare_integration_no_range_error [of env self a log0 e']
      by (auto simp: get_emission_def)
  next
    case (Inr f)
    have f: "\<And>uv l c e. f uv l c = Inl e \<Longrightarrow> \<not> is_range_error e"
      using integrator_no_range_error p Inr by blast
    show ?thesis
    proof (cases "binned a")
      case True
      show ?thesis
      proof (cases "nside a")
        case None then show ?thesis using assms chk p Inr True by (auto simp: get_emission_def)
      next
        case (Some n)
        show ?thesis
        proof (cases "binned_directions env a n angles")
          case (Inl e') then show ?thesis
            using assms chk p Inr True Some binned_directions_no_range_error [of env a n angles e']
            by (auto simp: get_emission_def)
        next
          case d: (Inr d)
          obtain up counts uv where dd: "d = (up, counts, uv)" by (cases d) auto
          let ?r = "binned_loop f uv up (enumerate 0 (comps (model self)))
                      (replicate (ncomps (model self)) (replicate (nat (nside2npix n)) 0))"
          have eq: "snd (get_emission env self a) =
                      bind_err (snd ?r) (\<lambda>em.
                        bind_err (imul_columns em (nat (nside2npix n)) up counts)
                          (\<lambda>em'. Inr (finish (return_comps a) (nat (nside2npix n)) em')))"
            using chk p Inr True Some d dd by (simp add: get_emission_def Let_def)
          show ?thesis
          proof (cases "snd ?r")
            case (Inl e') then show ?thesis
              using assms eq binned_loop_no_range_error [where f = f and e = e', OF f] by simp
          next
            case em: (Inr em)
            show ?thesis
              using assms eq em imul_columns_no_range_error [of em "nat (nside2npix n)" up counts e]
              by (cases "imul_columns em (nat (nside2npix n)) up counts") auto
          qed
        qed
      qed
    next
      case False
      show ?thesis
      proof (cases "timestream_directions env a angles")
        case (Inl e') then show ?thesis
          using assms chk p Inr False timestream_directions_no_range_error [of env a angles e']
          by (auto simp: get_emission_def)
      next
        case d: (Inr d)
        obtain ix uv n where dd: "d = (ix, uv, n)" by (cases d) auto
        let ?r = "timestream_loop f uv ix (enumerate 0 (comps (model self)))
                    (replicate (ncomps (model self)) (replicate n 0))"
        have eq: "snd (get_emission env self a) =
                    bind_err (snd ?r) (\<lambda>em. Inr (finish (return_comps a) n em))"
          using chk p Inr False d dd by (simp add: get_emission_def Let_def)
        show ?thesis
          using assms eq timestream_loop_no_range_error [where f = f and e = e, OF f]
          by (cases "snd ?r") auto
      qed
    qed
  qed
qed

lemmas tabulated_defs = tabulated_env_def tabulated_zodipy_def example_args_def

text \<open>
  Claim C3 says that, with extrapolation disabled, a call of \<^verbatim>\<open>get_emission\<close> with a
  frequency beyond the smallest or the largest tabulated spectral value of the model
  fails with a validation error that names the valid range, before any numeric work.
  \<^verbatim>\<open>get_emission\<close> has no such check: the test of the range is in the decorator
  \<^verbatim>\<open>validate_frequency\<close>, and \<^verbatim>\<open>get_emission\<close> is decorated with \<^verbatim>\<open>u.quantity_input\<close>
  alone. On the model tabulated at \<open>100, 353, 857\<close> GHz the call at 858 GHz, above the
  largest value, and the call at 99 GHz, below the smallest, both resolve the
  positions, interpolate, integrate the two components and return the emission, as
  the call at 857 GHz does.
\<close>

theorem get_emission_accepts_frequency_beyond_spectrum:
  "emissivity_spectrum (model tabulated_zodipy) = [100, 353, 857] \<and>
   get_emission tabulated_env tabulated_zodipy
     (example_args\<lparr>freq := \<lparr>magnitude = 858, q_unit = ''GHz''\<rparr>\<rparr>) =
     ([GetBody ''Earth'', GetBody ''earth'', InterpPhaseCoeffs, InterpCompSpectralParams,
       Trapezoidal CLOUD [(3, 0, 0), (5, 0, 0)], Trapezoidal RING [(3, 0, 0), (5, 0, 0)]],
      Inr (PerComp [[5 * 10 ^ 20, 7 * 10 ^ 20, 5 * 10 ^ 20],
                    [5 * 10 ^ 20, 7 * 10 ^ 20, 5 * 10 ^ 20]])) \<and>
   get_emission tabulated_env tabulated_zodipy
     (example_args\<lparr>freq := \<lparr>magnitude = 99, q_unit = ''GHz''\<rparr>\<rparr>) =
     ([GetBody ''Earth'', GetBody ''earth'', InterpPhaseCoeffs, InterpCompSpectralParams,
       Trapezoidal CLOUD [(3, 0, 0), (5, 0, 0)], Trapezoidal RING [(3, 0, 0), (5, 0, 0)]],
      Inr (PerComp [[5 * 10 ^ 20, 7 * 10 ^ 20, 5 * 10 ^ 20],
                    [5 * 10 ^ 20, 7 * 10 ^ 20, 5 * 10 ^ 20]])) \<and>
   get_emission tabulated_env tabulated_zodipy
     (example_args\<lparr>freq := \<lparr>magnitude = 857, q_unit = ''GHz''\<rparr>\<rparr>) =
     ([GetBody ''Earth'', GetBody ''earth'', InterpPhaseCoeffs, InterpCompSpectralParams,
       Trapezoidal CLOUD [(3, 0, 0), (5, 0, 0)], Trapezoidal RING [(3, 0, 0), (5, 0, 0)]],
      Inr (PerComp [[5 * 10 ^ 20, 7 * 10 ^ 20, 5 * 10 ^ 20],
                    [5 * 10 ^ 20, 7 * 10 ^ 20, 5 * 10 ^ 20]]))"
  by (simp add: get_emission_unfold tabulated_defs)

subsection \<open>The observer at L2\<close>





subsection \<open>Repeated directions\<close>

text \<open>
  Claim C1. When a call that is not binned returns, the values of the result at two
  input positions that hold the same direction (the same pixel, or the same pair of
  angles) are equal, for every component and for the sum. The integrator was called
  once for every component of the model, each time along as many unit vectors as
  there are distinct directions in the input.
\<close>

theorem get_emission_repeats_equal:
  assumes "get_emission env self a = (lg, Inr res)" "\<not> binned a"
    and "i < length (input_directions a)" "j < length (input_directions a)"
    and "input_directions a ! i = input_directions a ! j"
  shows "emission_at res i = emission_at res j \<and>
         (\<exists>uv. length uv = card (set (input_directions a)) \<and>
               filter is_integration lg =
                 map (\<lambda>c. Trapezoidal (fst c) uv) (comps (model self)))"
proof -
  let ?ds = "input_directions a" and ?cs = "comps (model self)" and ?R = "ncomps (model self)"
  from assms(1,2) obtain f uv em where
    "snd (prepare_integration env self a) = Inr f"
    and d: "timestream_directions env a (converted_angles a) =
       Inr (map (index_of (unique_directions a)) ?ds, uv, length ?ds)"
    and res: "res = finish (return_comps a) (length ?ds) em"
    and len: "length em = ?R"
    and lg: "filter is_integration lg = map (\<lambda>c. Trapezoidal (fst c) uv) ?cs"
    and r1: "\<And>r. r < ?R \<Longrightarrow> r < length ?cs \<Longrightarrow>
       \<exists>T. f uv (fst (?cs ! r)) (snd (?cs ! r)) = Inr T \<and>
           (\<forall>d\<in>set ?ds. index_of (unique_directions a) d < length T) \<and>
           em ! r = map (\<lambda>d. T ! index_of (unique_directions a) d) ?ds"
    and r2: "\<And>r. r < ?R \<Longrightarrow> \<not> r < length ?cs \<Longrightarrow> em ! r = replicate (length ?ds) 0"
    by (rule timestream_rows) (rule that)
  have row: "length row = length ?ds \<and> row ! i = row ! j" if "row \<in> set em" for row
  proof -
    from that len obtain r where r: "r < ?R" "row = em ! r"
      by (auto simp: in_set_conv_nth)
    show ?thesis
    proof (cases "r < length ?cs")
      case True
      from r1 [OF r(1) True] r(2) assms(3-5) show ?thesis by auto
    next
      case False
      from r2 [OF r(1) False] r(2) assms(3,4) show ?thesis by simp
    qed
  qed
  have cols: "map (\<lambda>row. row ! i * MJy_per_sr) em = map (\<lambda>row. row ! j * MJy_per_sr) em"
    using row by simp
  have lens: "\<forall>row\<in>set em. length row = length ?ds"
    using row by simp
  have "emission_at res i = emission_at res j"
    unfolding res emission_at_finish [OF assms(3) lens] emission_at_finish [OF assms(4) lens]
    by (simp only: cols)
  moreover have "length uv = card (set ?ds)"
    by (rule timestream_directions_length [OF d])
  ultimately show ?thesis
    using lg by blast
qed

text \<open>The witness: the pixels \<open>3, 5, 3\<close>; the positions \<open>0\<close> and \<open>2\<close> hold the same
  pixel.\<close>

theorem get_emission_repeats_equal_witness:
  "get_emission example_env example_zodipy example_args =
     ([GetBody ''Earth'', GetBody ''earth'', InterpPhaseCoeffs, InterpCompSpectralParams,
       Trapezoidal CLOUD [(3, 0, 0), (5, 0, 0)], Trapezoidal RING [(3, 0, 0), (5, 0, 0)]],
      Inr (PerComp [[5 * 10 ^ 20, 7 * 10 ^ 20, 5 * 10 ^ 20],
                    [5 * 10 ^ 20, 7 * 10 ^ 20, 5 * 10 ^ 20]])) \<and>
   input_directions example_args = [Pixel 3, Pixel 5, Pixel 3] \<and>
   emission_at (PerComp [[5 * 10 ^ 20, 7 * 10 ^ 20, 5 * 10 ^ 20],
                         [5 * 10 ^ 20, 7 * 10 ^ 20, 5 * 10 ^ 20]]) 0 =
   emission_at (PerComp [[5 * 10 ^ 20, 7 * 10 ^ 20, 5 * 10 ^ 20],
                         [5 * 10 ^ 20, 7 * 10 ^ 20, 5 * 10 ^ 20]]) 2"
proof -
  have d: "input_directions example_args = [Pixel 3, Pixel 5, Pixel 3]"
    by (simp add: input_directions_def example_args_def)
  have h: "\<not> binned example_args" "0 < length (input_directions example_args)"
    "2 < length (input_directions example_args)"
    "input_directions example_args ! 0 = input_directions example_args ! 2"
    by (simp_all add: d) (simp add: example_args_def)
  from get_emission_repeats_equal [OF example_timestream h] example_timestream d
  show ?thesis by blast
qed

subsection \<open>The binned map\<close>

lemma broadcast_to_Inr:
  assumes "broadcast_to n T = Inr vs"
  shows "length vs = n" and "k < n \<Longrightarrow> k < length T \<Longrightarrow> vs ! k = T ! k"
proof -
  show "length vs = n"
    using assms by (auto simp: broadcast_to_def split: if_splits)
  show "vs ! k = T ! k" if "k < n" "k < length T"
    using assms that by (cases T) (auto simp: broadcast_to_def split: if_splits)
qed

lemma fancy_assign_Inr:
  "fancy_assign row up T = Inr row' \<longleftrightarrow>
     (\<exists>js vs. np_indices (length row) up = Inr js \<and> broadcast_to (length js) T = Inr vs \<and>
              row' = put js vs row)"
  by (auto simp: fancy_assign_def bind_err_Inr)

lemma imul_columns_Inr:
  "imul_columns em n up counts = Inr em' \<longleftrightarrow>
     (\<exists>js. np_indices n up = Inr js \<and>
           em' = map (\<lambda>row. put js (map2 (\<lambda>j c. row ! j * of_int c) js counts) row) em)"
  by (auto simp: imul_columns_def bind_err_Inr)

lemma np_indices_less: "np_indices n up = Inr js \<Longrightarrow> \<forall>j\<in>set js. j < n"
  using np_indices_Inr [of n up js] np_index_Inr [of n]
  by (auto simp: in_set_conv_nth) metis

lemma put_zeros:
  "\<forall>x\<in>set row. x = (0::real) \<Longrightarrow> \<forall>v\<in>set vs. v = 0 \<Longrightarrow> \<forall>x\<in>set (put js vs row). x = 0"
proof (induction js arbitrary: vs row)
  case Nil
  then show ?case by (simp add: put_Nil)
next
  case (Cons j js)
  show ?case
  proof (cases vs)
    case Nil
    with Cons.prems show ?thesis by (simp add: put_Nil)
  next
    case (Cons v vs')
    have "\<forall>x\<in>set (row[j := v]). x = 0"
      using Cons.prems Cons set_update_subset_insert [of row j v] by auto
    with Cons.IH [of "row[j := v]" vs'] Cons.prems Cons show ?thesis
      by (simp add: put_Cons)
  qed
qed

text \<open>A row after the assignment at the pixels and the multiplication by the counts.\<close>

lemma scaled_row:
  assumes "np_indices n up = Inr js" "length counts = length up" "length vs = length js"
    and "length row = n"
  defines "row1 \<equiv> put js vs row"
  defines "row2 \<equiv> put js (map2 (\<lambda>j c. row1 ! j * of_int c) js counts) row1"
  shows "length row2 = n"
    and "q \<notin> set js \<Longrightarrow> row2 ! q = row ! q"
    and "distinct js \<Longrightarrow> k < length js \<Longrightarrow> row2 ! (js ! k) = vs ! k * of_int (counts ! k)"
proof -
  have len: "length js = length up"
    using np_indices_Inr [OF assms(1)] by simp
  have less: "\<forall>j\<in>set js. j < n"
    by (rule np_indices_less [OF assms(1)])
  show "length row2 = n"
    by (simp add: row2_def row1_def length_put assms(4))
  show "row2 ! q = row ! q" if "q \<notin> set js"
    using that by (simp add: row2_def row1_def put_nth_other)
  show "row2 ! (js ! k) = vs ! k * of_int (counts ! k)" if "distinct js" "k < length js"
  proof -
    have jk: "js ! k < n" using less that(2) by simp
    have 1: "row1 ! (js ! k) = vs ! k"
      unfolding row1_def using that assms(3,4) jk by (intro put_nth_written) simp_all
    have "row2 ! (js ! k) = (map2 (\<lambda>j c. row1 ! j * of_int c) js counts) ! k"
      unfolding row2_def using that len assms(2,4) jk
      by (intro put_nth_written) (simp_all add: row1_def length_put)
    also have "\<dots> = row1 ! (js ! k) * of_int (counts ! k)"
      using that(2) len assms(2) by simp
    finally show ?thesis using 1 by simp
  qed
qed

lemma scaled_zero_row:
  assumes "np_indices n up = Inr js"
  shows "put js (map2 (\<lambda>j c. replicate n (0::real) ! j * of_int c) js counts) (replicate n 0)
           = replicate n 0"
proof -
  let ?W = "map2 (\<lambda>j c. replicate n (0::real) ! j * of_int c) js counts"
  have less: "\<forall>j\<in>set js. j < n"
    by (rule np_indices_less [OF assms])
  have "\<forall>v\<in>set ?W. v = 0"
    using less by (auto simp: set_zip)
  then have "\<forall>x\<in>set (put js ?W (replicate n 0)). x = 0"
    by (intro put_zeros) simp_all
  then show ?thesis
    by (intro replicate_eqI) (simp_all add: length_put)
qed

lemma unique_directions_binned [simp]:
  "unique_directions (a\<lparr>binned := b\<rparr>) = unique_directions a"
  by (simp add: unique_directions_def cong: option.case_cong)

lemma widths_finish: "\<forall>w\<in>set (widths (finish rc n em)). w = n"
  if "\<forall>row\<in>set em. length row = n"
  using that by (simp add: finish_def Let_def)

lemma binned_rows:
  assumes "get_emission env self a = (lg, Inr res)" "binned a"
  obtains f n uv js em where
    "snd (prepare_integration env self a) = Inr f" "nside a = Some n"
    "binned_directions env a n (converted_angles a) =
       Inr (map (pixel_of env a) (unique_directions a),
            map (\<lambda>d. int (count_list (input_directions a) d)) (unique_directions a), uv)"
    "np_indices (nat (nside2npix n)) (map (pixel_of env a) (unique_directions a)) = Inr js"
    "res = finish (return_comps a) (nat (nside2npix n)) em"
    "length em = ncomps (model self)"
    "\<forall>row\<in>set em. length row = nat (nside2npix n)"
    "\<And>r q. r < ncomps (model self) \<Longrightarrow> q \<notin> set js \<Longrightarrow> q < nat (nside2npix n) \<Longrightarrow>
       em ! r ! q = 0"
    "\<And>r k. r < ncomps (model self) \<Longrightarrow> r < length (comps (model self)) \<Longrightarrow> distinct js \<Longrightarrow>
       k < length js \<Longrightarrow>
       \<exists>T. f uv (fst (comps (model self) ! r)) (snd (comps (model self) ! r)) = Inr T \<and>
           (k < length T \<longrightarrow>
              em ! r ! (js ! k) =
                T ! k * real (count_list (input_directions a) (unique_directions a ! k)))"
    "\<And>r q. r < ncomps (model self) \<Longrightarrow> \<not> r < length (comps (model self)) \<Longrightarrow>
       q < nat (nside2npix n) \<Longrightarrow> em ! r ! q = 0"
proof -
  from assms obtain log0 f n up counts uv lg1 em0 em where
    p: "prepare_integration env self a = (log0, Inr f)" and n: "nside a = Some n"
    and d: "binned_directions env a n (converted_angles a) = Inr (up, counts, uv)"
    and l: "binned_loop f uv up (enumerate 0 (comps (model self)))
       (replicate (ncomps (model self)) (replicate (nat (nside2npix n)) 0)) = (lg1, Inr em0)"
    and im: "imul_columns em0 (nat (nside2npix n)) up counts = Inr em"
    and res: "res = finish (return_comps a) (nat (nside2npix n)) em"
    by (rule get_emission_binned_Inr)
  let ?cs = "comps (model self)" and ?R = "ncomps (model self)" and ?N = "nat (nside2npix n)"
  let ?ud = "unique_directions a" and ?ds = "input_directions a"
  let ?z = "replicate ?N (0::real)"
  note up = binned_directions_facts(1) [OF d n] and counts = binned_directions_facts(2) [OF d n]
  from im obtain js where js: "np_indices ?N up = Inr js"
    and em: "em = map (\<lambda>row. put js (map2 (\<lambda>j c. row ! j * of_int c) js counts) row) em0"
    by (auto simp: imul_columns_Inr)
  have lenjs: "length js = length ?ud"
    using np_indices_Inr [OF js] up by simp
  have lenc: "length counts = length up"
    using up counts by simp
  from binned_loop_rows [OF l]
  have len0: "length em0 = ?R"
    and rows: "\<And>r. r < ?R \<Longrightarrow>
        (\<not> r < length ?cs \<longrightarrow> em0 ! r = ?z) \<and>
        (r < length ?cs \<longrightarrow>
           (\<exists>T. f uv (fst (?cs ! r)) (snd (?cs ! r)) = Inr T \<and>
                fancy_assign ?z up T = Inr (em0 ! r)))"
    by simp_all
  have len: "length em = ?R"
    using em len0 by simp
  have emr: "em ! r = put js (map2 (\<lambda>j c. em0 ! r ! j * of_int c) js counts) (em0 ! r)"
    if "r < ?R" for r
    using that em len0 by simp
  have zero: "em ! r = ?z" if "r < ?R" "\<not> r < length ?cs" for r
    using rows [OF that(1)] that(2) emr [OF that(1)] scaled_zero_row [OF js, of counts]
    by simp
  have comp: "\<exists>T vs. f uv (fst (?cs ! r)) (snd (?cs ! r)) = Inr T \<and>
      broadcast_to (length js) T = Inr vs \<and>
      em ! r = put js (map2 (\<lambda>j c. put js vs ?z ! j * of_int c) js counts) (put js vs ?z)"
    if "r < ?R" "r < length ?cs" for r
  proof -
    from rows [OF that(1)] that(2) obtain T where
      T: "f uv (fst (?cs ! r)) (snd (?cs ! r)) = Inr T"
      and fa: "fancy_assign ?z up T = Inr (em0 ! r)"
      by auto
    from fa js obtain vs where "broadcast_to (length js) T = Inr vs" "em0 ! r = put js vs ?z"
      by (auto simp: fancy_assign_Inr)
    with T emr [OF that(1)] show ?thesis by auto
  qed
  have rowlen: "length (em ! r) = ?N" if "r < ?R" for r
  proof (cases "r < length ?cs")
    case True
    from comp [OF that True] show ?thesis by (auto simp: length_put)
  next
    case False
    from zero [OF that False] show ?thesis by simp
  qed
  show thesis
  proof (rule that [of f n uv js em])
    show "snd (prepare_integration env self a) = Inr f" using p by simp
    show "nside a = Some n" by (rule n)
    show "binned_directions env a n (converted_angles a) =
       Inr (map (pixel_of env a) ?ud, map (\<lambda>d. int (count_list ?ds d)) ?ud, uv)"
      using d up counts by simp
    show "np_indices ?N (map (pixel_of env a) ?ud) = Inr js"
      using js up by simp
    show "res = finish (return_comps a) ?N em" by (rule res)
    show "length em = ?R" by (rule len)
    show "\<forall>row\<in>set em. length row = ?N"
      using rowlen len by (auto simp: in_set_conv_nth)
    show "em ! r ! q = 0" if "r < ?R" "q \<notin> set js" "q < ?N" for r q
    proof (cases "r < length ?cs")
      case True
      from comp [OF that(1) True] obtain T vs where
        vs: "broadcast_to (length js) T = Inr vs"
        and e: "em ! r = put js (map2 (\<lambda>j c. put js vs ?z ! j * of_int c) js counts) (put js vs ?z)"
        by auto
      from scaled_row(2) [OF js lenc broadcast_to_Inr(1) [OF vs], of ?z q] that(2,3) e
      show ?thesis by simp
    next
      case False
      from zero [OF that(1) False] that(3) show ?thesis by simp
    qed
    show "\<exists>T. f uv (fst (?cs ! r)) (snd (?cs ! r)) = Inr T \<and>
           (k < length T \<longrightarrow> em ! r ! (js ! k) = T ! k * real (count_list ?ds (?ud ! k)))"
      if "r < ?R" "r < length ?cs" "distinct js" "k < length js" for r k
    proof -
      from comp [OF that(1,2)] obtain T vs where
        T: "f uv (fst (?cs ! r)) (snd (?cs ! r)) = Inr T"
        and vs: "broadcast_to (length js) T = Inr vs"
        and e: "em ! r = put js (map2 (\<lambda>j c. put js vs ?z ! j * of_int c) js counts) (put js vs ?z)"
        by auto
      have "em ! r ! (js ! k) = vs ! k * of_int (counts ! k)"
        using scaled_row(3) [OF js lenc broadcast_to_Inr(1) [OF vs], of ?z k] that(3,4) e
        by simp
      moreover have "counts ! k = int (count_list ?ds (?ud ! k))"
        using counts that(4) lenjs by simp
      moreover have "vs ! k = T ! k" if "k < length T"
        using broadcast_to_Inr(2) [OF vs \<open>k < length js\<close> that] .
      ultimately show ?thesis using T by auto
    qed
    show "em ! r ! q = 0" if "r < ?R" "\<not> r < length ?cs" "q < ?N" for r q
      using zero [OF that(1,2)] that(3) by simp
  qed
qed

lemma distinct_count_list: "distinct xs \<Longrightarrow> i < length xs \<Longrightarrow> count_list xs (xs ! i) = 1"
  by (induction xs arbitrary: i) (auto simp: nth_Cons' count_list_0_iff)

text \<open>
  A pixel of the map that is the pixel of no input direction holds zero, when the
  pixels of the input are not negative.
\<close>

lemma binned_unqueried_pixels_zero:
  assumes "get_emission env self a = (lg, Inr res)" "binned a"
    and "\<forall>d\<in>set (input_directions a). 0 \<le> pixel_of env a d"
    and "nside a = Some n" "q < nat (nside2npix n)"
    and "\<forall>d\<in>set (input_directions a). nat (pixel_of env a d) \<noteq> q"
  shows "\<forall>v\<in>set (emission_at res q). v = 0"
proof (rule binned_rows [OF assms(1,2)])
  fix f n' uv js em
  let ?cs = "comps (model self)" and ?R = "ncomps (model self)" and ?N = "nat (nside2npix n')"
  let ?ud = "unique_directions a" and ?ds = "input_directions a"
  assume n': "nside a = Some n'"
    and js: "np_indices ?N (map (pixel_of env a) ?ud) = Inr js"
    and res: "res = finish (return_comps a) ?N em"
    and len: "length em = ?R"
    and lens: "\<forall>row\<in>set em. length row = ?N"
    and other: "\<And>r q. r < ?R \<Longrightarrow> q \<notin> set js \<Longrightarrow> q < ?N \<Longrightarrow> em ! r ! q = 0"
  have nn: "n' = n" using n' assms(4) by simp
  have "\<forall>p\<in>set (map (pixel_of env a) ?ud). 0 \<le> p"
    using assms(3) by (simp add: set_unique_directions)
  from np_indices_nonneg(1) [OF js this] assms(6)
  have "q \<notin> set js"
    by (auto simp: set_unique_directions)
  with other assms(5) nn have "em ! r ! q = 0" if "r < ?R" for r
    using that by simp
  with len have "\<forall>row\<in>set em. row ! q = 0"
    by (auto simp: in_set_conv_nth)
  then have z: "map (\<lambda>row. row ! q * MJy_per_sr) em = map (\<lambda>row. 0) em"
    by simp
  have qN: "q < ?N" using assms(5) nn by simp
  have "emission_at res q =
          (if return_comps a then map (\<lambda>row. row ! q * MJy_per_sr) em
           else [sum_list (map (\<lambda>row. row ! q * MJy_per_sr) em)])"
    unfolding res by (rule emission_at_finish [OF qN lens])
  then have "emission_at res q =
          (if return_comps a then map (\<lambda>row. 0) em else [sum_list (map (\<lambda>row. 0) em)])"
    by (simp only: z)
  then show ?thesis by auto
qed

lemma example_binned:
  "get_emission example_env example_zodipy (example_args\<lparr>binned := True\<rparr>) =
     ([GetBody ''Earth'', GetBody ''earth'', InterpPhaseCoeffs, InterpCompSpectralParams,
       Trapezoidal CLOUD [(3, 0, 0), (5, 0, 0)], Trapezoidal RING [(3, 0, 0), (5, 0, 0)]],
      Inr (PerComp [[0, 0, 0, 10 * 10 ^ 20, 0, 7 * 10 ^ 20, 0, 0, 0, 0, 0, 0],
                    [0, 0, 0, 10 * 10 ^ 20, 0, 7 * 10 ^ 20, 0, 0, 0, 0, 0, 0]]))"
  by (simp add: get_emission_unfold example_defs)

lemma example_distinct_binned:
  "get_emission example_env example_zodipy
       (example_args\<lparr>pixels := Some [5, 3], binned := True\<rparr>) =
     ([GetBody ''Earth'', GetBody ''earth'', InterpPhaseCoeffs, InterpCompSpectralParams,
       Trapezoidal CLOUD [(3, 0, 0), (5, 0, 0)], Trapezoidal RING [(3, 0, 0), (5, 0, 0)]],
      Inr (PerComp [[0, 0, 0, 5 * 10 ^ 20, 0, 7 * 10 ^ 20, 0, 0, 0, 0, 0, 0],
                    [0, 0, 0, 5 * 10 ^ 20, 0, 7 * 10 ^ 20, 0, 0, 0, 0, 0, 0]]))"
  by (simp add: get_emission_unfold example_defs)

lemma example_distinct_timestream:
  "get_emission example_env example_zodipy
       (example_args\<lparr>pixels := Some [5, 3], binned := False\<rparr>) =
     ([GetBody ''Earth'', GetBody ''earth'', InterpPhaseCoeffs, InterpCompSpectralParams,
       Trapezoidal CLOUD [(3, 0, 0), (5, 0, 0)], Trapezoidal RING [(3, 0, 0), (5, 0, 0)]],
      Inr (PerComp [[7 * 10 ^ 20, 5 * 10 ^ 20], [7 * 10 ^ 20, 5 * 10 ^ 20]]))"
  by (simp add: get_emission_unfold example_defs)

lemma two_angles_binned:
  "get_emission example_env example_zodipy (two_angles_args\<lparr>binned := True\<rparr>) =
     ([GetBody ''Earth'', GetBody ''earth'', InterpPhaseCoeffs, InterpCompSpectralParams,
       Trapezoidal CLOUD [(1, 0, 0), (2, 0, 0)], Trapezoidal RING [(1, 0, 0), (2, 0, 0)]],
      Inr (PerComp [[4 * 10 ^ 20, 0, 0, 0, 0, 0, 0, 0, 0, 0, 0, 0],
                    [4 * 10 ^ 20, 0, 0, 0, 0, 0, 0, 0, 0, 0, 0, 0]]))"
  by (simp add: get_emission_unfold example_defs two_angles_args_def)

lemma two_angles_timestream:
  "get_emission example_env example_zodipy two_angles_args =
     ([GetBody ''Earth'', GetBody ''earth'', InterpPhaseCoeffs, InterpCompSpectralParams,
       Trapezoidal CLOUD [(1, 0, 0), (2, 0, 0)], Trapezoidal RING [(1, 0, 0), (2, 0, 0)]],
      Inr (PerComp [[3 * 10 ^ 20, 4 * 10 ^ 20], [3 * 10 ^ 20, 4 * 10 ^ 20]]))"
  by (simp add: get_emission_unfold example_defs two_angles_args_def)

lemma negative_pixel_binned:
  "get_emission example_env example_zodipy
       (example_args\<lparr>pixels := Some [- 1], binned := True\<rparr>) =
     ([GetBody ''Earth'', GetBody ''earth'', InterpPhaseCoeffs, InterpCompSpectralParams,
       Trapezoidal CLOUD [(- 1, 0, 0)], Trapezoidal RING [(- 1, 0, 0)]],
      Inr (PerComp [[0, 0, 0, 0, 0, 0, 0, 0, 0, 0, 0, 10 ^ 20],
                    [0, 0, 0, 0, 0, 0, 0, 0, 0, 0, 0, 10 ^ 20]]))"
  by (simp add: get_emission_unfold example_defs)

text \<open>
  Claim C2, as amended. The map of a binned call that returns has \<open>12 * nside^2\<close>
  values for every component and for the sum. If the call without \<open>binned\<close> returns
  as well, the pixels of the input directions are not negative, and different
  directions of the input have different pixels (which is so for every input of
  pixels), then the value of the map at the pixel of an input direction is the value
  of the other call at that direction, multiplied by the number of times the
  direction occurs in the input; for an input without repeats the two values are
  equal.
\<close>

theorem binned_emission_counts:
  assumes "get_emission env self a = (lg, Inr res)" "binned a"
  shows "(\<exists>n. nside a = Some n \<and> (\<forall>w\<in>set (widths res). w = nat (12 * n * n))) \<and>
         (\<forall>lg' res' i.
            get_emission env self (a\<lparr>binned := False\<rparr>) = (lg', Inr res') \<and>
            inj_on (pixel_of env a) (set (input_directions a)) \<and>
            (\<forall>d\<in>set (input_directions a). 0 \<le> pixel_of env a d) \<and>
            i < length (input_directions a) \<longrightarrow>
              emission_at res (nat (pixel_of env a (input_directions a ! i))) =
                map (\<lambda>v. real (count_list (input_directions a) (input_directions a ! i)) * v)
                  (emission_at res' i) \<and>
              (distinct (input_directions a) \<longrightarrow>
                 emission_at res (nat (pixel_of env a (input_directions a ! i))) =
                   emission_at res' i))"
proof (rule binned_rows [OF assms])
  fix f n uv js em
  let ?cs = "comps (model self)" and ?R = "ncomps (model self)" and ?N = "nat (nside2npix n)"
  let ?ud = "unique_directions a" and ?ds = "input_directions a"
  assume p: "snd (prepare_integration env self a) = Inr f" and n: "nside a = Some n"
    and d: "binned_directions env a n (converted_angles a) =
       Inr (map (pixel_of env a) ?ud, map (\<lambda>d. int (count_list ?ds d)) ?ud, uv)"
    and js: "np_indices ?N (map (pixel_of env a) ?ud) = Inr js"
    and res: "res = finish (return_comps a) ?N em"
    and len: "length em = ?R"
    and lens: "\<forall>row\<in>set em. length row = ?N"
    and other: "\<And>r q. r < ?R \<Longrightarrow> q \<notin> set js \<Longrightarrow> q < ?N \<Longrightarrow> em ! r ! q = 0"
    and written: "\<And>r k. r < ?R \<Longrightarrow> r < length ?cs \<Longrightarrow> distinct js \<Longrightarrow> k < length js \<Longrightarrow>
       \<exists>T. f uv (fst (?cs ! r)) (snd (?cs ! r)) = Inr T \<and>
           (k < length T \<longrightarrow> em ! r ! (js ! k) = T ! k * real (count_list ?ds (?ud ! k)))"
    and zero: "\<And>r q. r < ?R \<Longrightarrow> \<not> r < length ?cs \<Longrightarrow> q < ?N \<Longrightarrow> em ! r ! q = 0"
  have w: "\<exists>n. nside a = Some n \<and> (\<forall>w\<in>set (widths res). w = nat (12 * n * n))"
    using n widths_finish [OF lens, of "return_comps a"] res
    by (simp add: nside2npix_def)
  have main: "emission_at res (nat (pixel_of env a (?ds ! i))) =
                map (\<lambda>v. real (count_list ?ds (?ds ! i)) * v) (emission_at res' i) \<and>
              (distinct ?ds \<longrightarrow>
                 emission_at res (nat (pixel_of env a (?ds ! i))) = emission_at res' i)"
    if g': "get_emission env self (a\<lparr>binned := False\<rparr>) = (lg', Inr res')"
      and inj: "inj_on (pixel_of env a) (set ?ds)"
      and nonneg: "\<forall>d\<in>set ?ds. 0 \<le> pixel_of env a d"
      and i: "i < length ?ds"
    for lg' res' i
  proof -
    have nb: "\<not> binned (a\<lparr>binned := False\<rparr>)" by simp
    show ?thesis
  proof (rule timestream_rows [OF g' nb])
    fix f' uv' em'
    assume p': "snd (prepare_integration env self (a\<lparr>binned := False\<rparr>)) = Inr f'"
      and d': "timestream_directions env (a\<lparr>binned := False\<rparr>)
                 (converted_angles (a\<lparr>binned := False\<rparr>)) =
               Inr (map (index_of (unique_directions (a\<lparr>binned := False\<rparr>)))
                      (input_directions (a\<lparr>binned := False\<rparr>)), uv',
                    length (input_directions (a\<lparr>binned := False\<rparr>)))"
      and res': "res' = finish (return_comps (a\<lparr>binned := False\<rparr>))
                   (length (input_directions (a\<lparr>binned := False\<rparr>))) em'"
      and len': "length em' = ?R"
      and "filter is_integration lg' = map (\<lambda>c. Trapezoidal (fst c) uv') ?cs"
      and r1: "\<And>r. r < ?R \<Longrightarrow> r < length ?cs \<Longrightarrow>
         \<exists>T. f' uv' (fst (?cs ! r)) (snd (?cs ! r)) = Inr T \<and>
           (\<forall>d\<in>set (input_directions (a\<lparr>binned := False\<rparr>)).
               index_of (unique_directions (a\<lparr>binned := False\<rparr>)) d < length T) \<and>
           em' ! r = map (\<lambda>d. T ! index_of (unique_directions (a\<lparr>binned := False\<rparr>)) d)
                       (input_directions (a\<lparr>binned := False\<rparr>))"
      and r2: "\<And>r. r < ?R \<Longrightarrow> \<not> r < length ?cs \<Longrightarrow>
         em' ! r = replicate (length (input_directions (a\<lparr>binned := False\<rparr>))) 0"
    have ff: "f' = f" using p p' by simp
    have uu: "uv' = uv"
      using binned_directions_facts(3) [OF d n] d' by simp
    let ?d = "?ds ! i"
    let ?k = "index_of ?ud ?d"
    let ?c = "real (count_list ?ds ?d)"
    have din: "?d \<in> set ?ud"
      using i by (simp add: set_unique_directions)
    have k: "?k < length ?ud" and udk: "?ud ! ?k = ?d"
      using din by (simp_all add: index_of_less nth_index_of)
    have nn: "\<forall>p\<in>set (map (pixel_of env a) ?ud). 0 \<le> p"
      using nonneg by (simp add: set_unique_directions)
    note jsn = np_indices_nonneg [OF js nn]
    have jsk: "js ! ?k = nat (pixel_of env a ?d)"
      using jsn(1) k udk by simp
    have lenjs: "length js = length ?ud"
      using jsn(1) by simp
    have kN: "nat (pixel_of env a ?d) < ?N"
      using jsn(2) din by simp
    have "inj_on (\<lambda>d. nat (pixel_of env a d)) (set ?ud)"
    proof (rule inj_onI)
      fix x y assume "x \<in> set ?ud" "y \<in> set ?ud"
      assume "nat (pixel_of env a x) = nat (pixel_of env a y)"
      moreover from nonneg \<open>x \<in> set ?ud\<close> \<open>y \<in> set ?ud\<close>
      have "0 \<le> pixel_of env a x" "0 \<le> pixel_of env a y"
        by (simp_all add: set_unique_directions)
      ultimately have "pixel_of env a x = pixel_of env a y"
        by linarith
      with inj \<open>x \<in> set ?ud\<close> \<open>y \<in> set ?ud\<close> show "x = y"
        by (simp add: set_unique_directions inj_on_def)
    qed
    then have dist: "distinct js"
      using jsn(1) distinct_unique_directions [of a] by (simp add: distinct_map comp_def)
    have cell: "em ! r ! nat (pixel_of env a ?d) = ?c * (em' ! r ! i)" if r: "r < ?R" for r
    proof (cases "r < length ?cs")
      case True
      from r1 [OF r True] ff uu obtain T where
        T: "f uv (fst (?cs ! r)) (snd (?cs ! r)) = Inr T"
        and kT: "\<forall>d\<in>set ?ds. index_of ?ud d < length T"
        and e': "em' ! r = map (\<lambda>d. T ! index_of ?ud d) ?ds"
        by auto
      from written [OF r True dist, of ?k] k lenjs T
      have "?k < length T \<longrightarrow> em ! r ! (js ! ?k) = T ! ?k * real (count_list ?ds (?ud ! ?k))"
        by auto
      moreover have "?k < length T" using kT i by simp
      ultimately show ?thesis
        using e' i jsk udk by simp
    next
      case False
      from zero [OF r False kN] r2 [OF r False] i show ?thesis by simp
    qed
    let ?L = "map (\<lambda>row. row ! nat (pixel_of env a ?d) * MJy_per_sr) em"
    let ?L' = "map (\<lambda>row. row ! i * MJy_per_sr) em'"
    have L: "?L = map (\<lambda>v. ?c * v) ?L'"
      using len len' cell by (intro nth_equalityI) simp_all
    have lens': "\<forall>row\<in>set em'. length row = length ?ds"
    proof
      fix row assume "row \<in> set em'"
      with len' obtain r where r: "r < ?R" "row = em' ! r"
        by (auto simp: in_set_conv_nth)
      show "length row = length ?ds"
      proof (cases "r < length ?cs")
        case True
        from r1 [OF r(1) True] r(2) show ?thesis by auto
      next
        case False
        from r2 [OF r(1) False] r(2) show ?thesis by simp
      qed
    qed
    have e1: "emission_at res (nat (pixel_of env a ?d)) =
                (if return_comps a then ?L else [sum_list ?L])"
      unfolding res by (rule emission_at_finish [OF kN lens])
    have e2: "emission_at res' i = (if return_comps a then ?L' else [sum_list ?L'])"
      using emission_at_finish [OF i lens', of "return_comps a"] res' by simp
    have s: "sum_list ?L = ?c * sum_list ?L'"
      unfolding L by (rule sum_list_scale)
    have eq: "emission_at res (nat (pixel_of env a ?d)) = map (\<lambda>v. ?c * v) (emission_at res' i)"
      unfolding e1 e2 using L s by simp
    have one: "count_list ?ds ?d = 1" if "distinct ?ds"
      using that i by (simp add: distinct_count_list)
    show "emission_at res (nat (pixel_of env a ?d)) = map (\<lambda>v. ?c * v) (emission_at res' i) \<and>
          (distinct ?ds \<longrightarrow> emission_at res (nat (pixel_of env a ?d)) = emission_at res' i)"
      using eq one by simp
  qed
  qed
  from w main show ?thesis by blast
qed

text \<open>The witness: the pixels \<open>3, 5, 3\<close>, where pixel \<open>3\<close> holds twice the value of
  the call that is not binned, and the pixels \<open>5, 3\<close> without a repeat.\<close>

theorem binned_emission_counts_witness:
  "snd (get_emission example_env example_zodipy (example_args\<lparr>binned := True\<rparr>)) =
     Inr (PerComp [[0, 0, 0, 10 * 10 ^ 20, 0, 7 * 10 ^ 20, 0, 0, 0, 0, 0, 0],
                   [0, 0, 0, 10 * 10 ^ 20, 0, 7 * 10 ^ 20, 0, 0, 0, 0, 0, 0]]) \<and>
   snd (get_emission example_env example_zodipy example_args) =
     Inr (PerComp [[5 * 10 ^ 20, 7 * 10 ^ 20, 5 * 10 ^ 20],
                   [5 * 10 ^ 20, 7 * 10 ^ 20, 5 * 10 ^ 20]]) \<and>
   input_directions (example_args\<lparr>binned := True\<rparr>) = [Pixel 3, Pixel 5, Pixel 3] \<and>
   emission_at (PerComp [[0, 0, 0, 10 * 10 ^ 20, 0, 7 * 10 ^ 20, 0, 0, 0, 0, 0, 0],
                         [0, 0, 0, 10 * 10 ^ 20, 0, 7 * 10 ^ 20, 0, 0, 0, 0, 0, 0]]) 3 =
     map ((*) 2) (emission_at (PerComp [[5 * 10 ^ 20, 7 * 10 ^ 20, 5 * 10 ^ 20],
                                        [5 * 10 ^ 20, 7 * 10 ^ 20, 5 * 10 ^ 20]]) 0) \<and>
   snd (get_emission example_env example_zodipy
          (example_args\<lparr>pixels := Some [5, 3], binned := True\<rparr>)) =
     Inr (PerComp [[0, 0, 0, 5 * 10 ^ 20, 0, 7 * 10 ^ 20, 0, 0, 0, 0, 0, 0],
                   [0, 0, 0, 5 * 10 ^ 20, 0, 7 * 10 ^ 20, 0, 0, 0, 0, 0, 0]]) \<and>
   snd (get_emission example_env example_zodipy
          (example_args\<lparr>pixels := Some [5, 3], binned := False\<rparr>)) =
     Inr (PerComp [[7 * 10 ^ 20, 5 * 10 ^ 20], [7 * 10 ^ 20, 5 * 10 ^ 20]]) \<and>
   emission_at (PerComp [[0, 0, 0, 5 * 10 ^ 20, 0, 7 * 10 ^ 20, 0, 0, 0, 0, 0, 0],
                         [0, 0, 0, 5 * 10 ^ 20, 0, 7 * 10 ^ 20, 0, 0, 0, 0, 0, 0]]) 5 =
     emission_at (PerComp [[7 * 10 ^ 20, 5 * 10 ^ 20], [7 * 10 ^ 20, 5 * 10 ^ 20]]) 0"
proof -
  let ?a = "example_args\<lparr>binned := True\<rparr>"
  let ?b = "example_args\<lparr>pixels := Some [5, 3], binned := True\<rparr>"
  have da: "input_directions example_args = [Pixel 3, Pixel 5, Pixel 3]"
    and db: "input_directions (example_args\<lparr>pixels := Some [5, 3]\<rparr>) = [Pixel 5, Pixel 3]"
    by (simp_all add: input_directions_def example_args_def)
  have a': "?a\<lparr>binned := False\<rparr> = example_args"
    and b': "?b\<lparr>binned := False\<rparr> = example_args\<lparr>pixels := Some [5, 3], binned := False\<rparr>"
    by (simp_all add: example_args_def)
  have ha: "binned ?a" "inj_on (pixel_of example_env ?a) (set (input_directions ?a))"
    "\<forall>d\<in>set (input_directions ?a). 0 \<le> pixel_of example_env ?a d"
    "0 < length (input_directions ?a)"
    by (auto simp: da inj_on_def)
  have hb: "binned ?b" "inj_on (pixel_of example_env ?b) (set (input_directions ?b))"
    "\<forall>d\<in>set (input_directions ?b). 0 \<le> pixel_of example_env ?b d"
    "0 < length (input_directions ?b)" "distinct (input_directions ?b)"
    by (auto simp: db inj_on_def)
  from binned_emission_counts [OF example_binned ha(1)] example_timestream a' ha(2-4)
  have 1: "emission_at (PerComp [[0, 0, 0, 10 * 10 ^ 20, 0, 7 * 10 ^ 20, 0, 0, 0, 0, 0, 0],
                         [0, 0, 0, 10 * 10 ^ 20, 0, 7 * 10 ^ 20, 0, 0, 0, 0, 0, 0]])
            (nat (pixel_of example_env ?a (input_directions ?a ! 0))) =
     map (\<lambda>v. real (count_list (input_directions ?a) (input_directions ?a ! 0)) * v)
       (emission_at (PerComp [[5 * 10 ^ 20, 7 * 10 ^ 20, 5 * 10 ^ 20],
                                        [5 * 10 ^ 20, 7 * 10 ^ 20, 5 * 10 ^ 20]]) 0)"
    by metis
  from binned_emission_counts [OF example_distinct_binned hb(1)] example_distinct_timestream
    b' hb(2-5)
  have 2: "emission_at (PerComp [[0, 0, 0, 5 * 10 ^ 20, 0, 7 * 10 ^ 20, 0, 0, 0, 0, 0, 0],
                         [0, 0, 0, 5 * 10 ^ 20, 0, 7 * 10 ^ 20, 0, 0, 0, 0, 0, 0]])
            (nat (pixel_of example_env ?b (input_directions ?b ! 0))) =
     emission_at (PerComp [[7 * 10 ^ 20, 5 * 10 ^ 20], [7 * 10 ^ 20, 5 * 10 ^ 20]]) 0"
    by metis
  show ?thesis
    using 1 2 example_binned example_timestream example_distinct_binned
      example_distinct_timestream
    by (simp add: da db)
qed

text \<open>
  The counterexample to claim C2 as stated, which speaks of the number of times a
  pixel occurs in the pixelized input. The two pairs of angles \<open>(1, 0)\<close> and \<open>(2, 0)\<close> lie in pixel \<open>0\<close>, which so
  occurs twice; their integrated emissions are \<open>3e20\<close> and \<open>4e20\<close>. The map holds
  \<open>4e20\<close> there: the emission of the direction written last times its own count 1,
  which is neither twice the emission of one of the directions nor their sum.
\<close>

theorem binned_pixel_count_counterexample:
  "snd (get_emission example_env example_zodipy (two_angles_args\<lparr>binned := True\<rparr>)) =
     Inr (PerComp [[4 * 10 ^ 20, 0, 0, 0, 0, 0, 0, 0, 0, 0, 0, 0],
                   [4 * 10 ^ 20, 0, 0, 0, 0, 0, 0, 0, 0, 0, 0, 0]]) \<and>
   snd (get_emission example_env example_zodipy two_angles_args) =
     Inr (PerComp [[3 * 10 ^ 20, 4 * 10 ^ 20], [3 * 10 ^ 20, 4 * 10 ^ 20]]) \<and>
   input_directions (two_angles_args\<lparr>binned := True\<rparr>) = [Angles 1 0, Angles 2 0] \<and>
   map (pixel_of example_env (two_angles_args\<lparr>binned := True\<rparr>))
     (input_directions (two_angles_args\<lparr>binned := True\<rparr>)) = [0, 0] \<and>
   (4 * 10 ^ 20 :: real) \<noteq> 2 * (3 * 10 ^ 20) \<and>
   (4 * 10 ^ 20 :: real) \<noteq> 2 * (4 * 10 ^ 20) \<and>
   (4 * 10 ^ 20 :: real) \<noteq> 3 * 10 ^ 20 + 4 * 10 ^ 20"
  by (simp add: two_angles_binned two_angles_timestream)
    (simp add: input_directions_def converted_angles_def two_angles_args_def example_args_def
      example_env_def)

text \<open>
  Claim C10 says that a pixel that does not occur in the input holds zero. For the
  input pixel \<open>-1\<close> at \<open>nside = 1\<close> the call returns a map whose pixel \<open>11\<close>, which is
  not in the input, holds \<open>1e20\<close> for both components: NumPy reads the index \<open>-1\<close> of
  the assignment \<^verbatim>\<open>emission[idx, unique_pixels] = ...\<close> from the end of the row.
\<close>

theorem binned_negative_pixel_written:
  "snd (get_emission example_env example_zodipy
          (example_args\<lparr>pixels := Some [- 1], binned := True\<rparr>)) =
     Inr (PerComp [[0, 0, 0, 0, 0, 0, 0, 0, 0, 0, 0, 10 ^ 20],
                   [0, 0, 0, 0, 0, 0, 0, 0, 0, 0, 0, 10 ^ 20]]) \<and>
   input_directions (example_args\<lparr>pixels := Some [- 1], binned := True\<rparr>) = [Pixel (- 1)] \<and>
   Pixel 11 \<notin> set (input_directions (example_args\<lparr>pixels := Some [- 1], binned := True\<rparr>)) \<and>
   emission_at (PerComp [[0, 0, 0, 0, 0, 0, 0, 0, 0, 0, 0, 10 ^ 20],
                         [0, 0, 0, 0, 0, 0, 0, 0, 0, 0, 0, 10 ^ 20]]) 11 = [10 ^ 20, 10 ^ 20]"
  by (simp add: negative_pixel_binned)
    (simp add: input_directions_def example_args_def)

end
